theory Spec2Isabelle
  imports Complex_Main "HOL-Library.Word" "HOL-Library.Sublist" "HOL-Library.AList"
begin

section \<open>Python values used by the download and install pipeline\<close>

text \<open>
  The development embeds the file helpers (\<open>fileops.py\<close>), the retrying download wrapper
  (\<open>download.py\<close>), the helpers \<open>parse_retry_after\<close> and \<open>exponential_backoff\<close>
  (\<open>utils.py\<close>) and the modpack installer (\<open>installer.py\<close>) of curseforgepy.

  Conventions of the embedding:
  \<^item> text is a \<open>string\<close> of code points below 256, bytes are \<open>8 word\<close> lists;
  \<^item> a \<open>pathlib.Path\<close> is the list of its components below the file-system root;
  \<^item> an exception is a value of type \<open>error\<close>; a function that may raise and that
    changes the outside world returns \<open>(error + 'a) \<times> world\<close>, so the state reached
    when the exception leaves the function is part of the result;
  \<^item> a finite \<open>float\<close> is the rational number it denotes. Where a float operation of the
    code can raise, the model raises: \<open>2.0 ** n\<close> overflows from \<open>n = 1024\<close> on, and
    \<open>float(int(s))\<close> rounds to the nearest double (ties to even) and overflows when that is
    no longer finite. Infinities and NaN are not modelled;
  \<^item> the jitter of \<open>exponential_backoff\<close> is random, so a back-off sleep is recorded
    by its nominal delay, before jitter;
  \<^item> \<open>time.sleep\<close> returns for every delay; that the platform rejects a delay of
    centuries is not modelled.
\<close>

type_synonym byte = "8 word"
type_synonym bytes = "byte list"
type_synonym path = "string list"

datatype error =
    ValueError string
  | DownloadError string
  | FileNotFoundError string
  | OSError string
  | AttributeError string
  | TypeError string
  | UnboundLocalError string
  | ConnectionError string
  | OverflowError string

fun str_of_error :: "error \<Rightarrow> string" where
  \<comment> \<open>\<open>str(exc)\<close>. \<open>DownloadError\<close> derives from \<open>CurseForgeError\<close>, whose \<open>__str__\<close>
      puts the class tag before the message; no \<open>code\<close> is ever given to it here.\<close>
  "str_of_error (ValueError m) = m"
| "str_of_error (DownloadError m) = ''[CurseForgeError] '' @ m"
| "str_of_error (FileNotFoundError m) = m"
| "str_of_error (OSError m) = m"
| "str_of_error (AttributeError m) = m"
| "str_of_error (TypeError m) = m"
| "str_of_error (UnboundLocalError m) = m"
| "str_of_error (ConnectionError m) = m"
| "str_of_error (OverflowError m) = m"

subsection \<open>Strings\<close>

definition lower_char :: "char \<Rightarrow> char" where
  \<comment> \<open>\<open>str.lower\<close> on one code point below 256: A-Z and the Latin-1 capitals.\<close>
  "lower_char c =
     (let n = (of_char c :: nat)
      in if (65 \<le> n \<and> n \<le> 90) \<or> (192 \<le> n \<and> n \<le> 222 \<and> n \<noteq> 215)
         then char_of (n + 32) else c)"

definition lower :: "string \<Rightarrow> string" where
  "lower s = map lower_char s"

definition isspace_char :: "char \<Rightarrow> bool" where
  "isspace_char c =
     (let n = (of_char c :: nat)
      in (9 \<le> n \<and> n \<le> 13) \<or> (28 \<le> n \<and> n \<le> 32) \<or> n = 133 \<or> n = 160)"

definition strip :: "string \<Rightarrow> string" where
  "strip s = rev (dropWhile isspace_char (rev (dropWhile isspace_char s)))"

definition ascii_digit :: "char \<Rightarrow> bool" where
  "ascii_digit c = (let n = (of_char c :: nat) in 48 \<le> n \<and> n \<le> 57)"

definition isdigit_char :: "char \<Rightarrow> bool" where
  \<comment> \<open>\<open>str.isdigit\<close> also accepts the superscript digits of Latin-1.\<close>
  "isdigit_char c =
     (let n = (of_char c :: nat) in ascii_digit c \<or> n = 178 \<or> n = 179 \<or> n = 185)"

definition isdigit :: "string \<Rightarrow> bool" where
  "isdigit s = (s \<noteq> [] \<and> list_all isdigit_char s)"

definition nat_of_digits :: "string \<Rightarrow> nat" where
  "nat_of_digits s = foldl (\<lambda>a c. 10 * a + ((of_char c :: nat) - 48)) 0 s"

fun contains :: "string \<Rightarrow> string \<Rightarrow> bool" where
  \<comment> \<open>\<open>contains needle s\<close> is Python's \<open>needle in s\<close>.\<close>
  "contains needle [] = (needle = [])"
| "contains needle (c # cs) = (prefix needle (c # cs) \<or> contains needle cs)"

fun split_char :: "char \<Rightarrow> string \<Rightarrow> string \<Rightarrow> string list" where
  \<comment> \<open>\<open>split_char sep [] s\<close> is \<open>s.split(sep)\<close>.\<close>
  "split_char sep acc [] = [rev acc]"
| "split_char sep acc (c # cs) =
     (if c = sep then rev acc # split_char sep [] cs else split_char sep (c # acc) cs)"

fun after_marker :: "string \<Rightarrow> string \<Rightarrow> string option" where
  \<comment> \<open>\<open>s.split(m, 1)[1]\<close> when \<open>m in s\<close>\<close>
  "after_marker m [] = (if m = [] then Some [] else None)"
| "after_marker m (c # cs) =
     (if prefix m (c # cs) then Some (drop (length m) (c # cs)) else after_marker m cs)"

definition rstrip_char :: "char \<Rightarrow> string \<Rightarrow> string" where
  "rstrip_char x s = rev (dropWhile (\<lambda>c. c = x) (rev s))"

definition strip_char :: "char \<Rightarrow> string \<Rightarrow> string" where
  "strip_char x s = rstrip_char x (dropWhile (\<lambda>c. c = x) s)"

definition truthy :: "string option \<Rightarrow> bool" where
  \<comment> \<open>the truth value of an \<open>Optional[str]\<close>\<close>
  "truthy v = (case v of None \<Rightarrow> False | Some s \<Rightarrow> s \<noteq> [])"

definition digit_char :: "nat \<Rightarrow> char" where
  "digit_char d = char_of (48 + d)"

fun str_of_nat_fuel :: "nat \<Rightarrow> nat \<Rightarrow> string" where
  "str_of_nat_fuel 0 n = []"
| "str_of_nat_fuel (Suc k) n =
     (if n < 10 then [digit_char n] else str_of_nat_fuel k (n div 10) @ [digit_char (n mod 10)])"

definition str_of_nat :: "nat \<Rightarrow> string" where
  "str_of_nat n = str_of_nat_fuel (Suc n) n"

definition str_of_int :: "int \<Rightarrow> string" where
  "str_of_int i = (if i < 0 then CHR ''-'' # str_of_nat (nat (- i)) else str_of_nat (nat i))"

definition basename :: "string \<Rightarrow> string" where
  \<comment> \<open>\<open>os.path.basename\<close>: what follows the last slash.\<close>
  "basename s = rev (takeWhile (\<lambda>c. c \<noteq> CHR ''/'') (rev s))"

subsection \<open>Paths\<close>

definition parent :: "path \<Rightarrow> path" where
  "parent p = butlast p"

definition name_of :: "path \<Rightarrow> string" where
  "name_of p = (if p = [] then [] else last p)"

definition str_of_path :: "path \<Rightarrow> string" where
  "str_of_path p = (if p = [] then ''/'' else concat (map (\<lambda>c. CHR ''/'' # c) p))"

definition components :: "string \<Rightarrow> path" where
  "components s = filter (\<lambda>c. c \<noteq> [] \<and> c \<noteq> ''.'') (split_char (CHR ''/'') [] s)"

definition join :: "path \<Rightarrow> string \<Rightarrow> path" where
  \<comment> \<open>\<open>p / s\<close>: empty and \<open>.\<close> components vanish, an absolute \<open>s\<close> replaces \<open>p\<close>.\<close>
  "join p s = (if prefix ''/'' s then components s else p @ components s)"

definition temp_part_path :: "path \<Rightarrow> path" where
  \<comment> \<open>Both branches of the source append \<open>.part\<close> to the last component.\<close>
  "temp_part_path dest = (if dest = [] then [''.part''] else butlast dest @ [last dest @ ''.part''])"

subsection \<open>The file system\<close>

text \<open>
  The file system is a finite table from paths to nodes; every component is a plain name (no symbolic links, no \<open>..\<close>). The root
  \<open>[]\<close> is always a directory. An operation fails where the table makes it fail (a missing
  parent, a directory where a file is expected) and also where the environment says so:
  \<open>io_error w (op, p)\<close> is the message of the \<open>OSError\<close> that operation \<open>op\<close> on
  path \<open>p\<close> raises (a lock, a permission, another device), or \<open>None\<close>. A copy of file
  content can break off half way: \<open>copy_error w p = Some (k, m)\<close> says that copying onto
  \<open>p\<close> raises \<open>OSError m\<close> when \<open>k\<close> bytes have arrived (all of them, when only the
  metadata cannot be copied).
\<close>

datatype node = File bytes | Dir

type_synonym filesystem = "(path \<times> node) list"

datatype fs_op =
  Op_mkdir | Op_mkstemp | Op_open | Op_write | Op_read | Op_replace | Op_unlink
  | Op_rename | Op_rmtree | Op_copytree

definition node_at :: "filesystem \<Rightarrow> path \<Rightarrow> node option" where
  "node_at t p = (if p = [] then Some Dir else map_of t p)"

definition is_dir :: "filesystem \<Rightarrow> path \<Rightarrow> bool" where
  "is_dir t p = (node_at t p = Some Dir)"

definition is_file :: "filesystem \<Rightarrow> path \<Rightarrow> bool" where
  "is_file t p = (case node_at t p of Some (File b) \<Rightarrow> True | _ \<Rightarrow> False)"

definition present :: "filesystem \<Rightarrow> path \<Rightarrow> bool" where
  \<comment> \<open>\<open>Path.exists\<close>\<close>
  "present t p = (node_at t p \<noteq> None)"

definition put :: "path \<Rightarrow> node \<Rightarrow> filesystem \<Rightarrow> filesystem" where
  "put p n t = AList.update p n t"

definition add_dir :: "filesystem \<Rightarrow> path \<Rightarrow> filesystem" where
  "add_dir t p = (if present t p then t else t @ [(p, Dir)])"

definition under :: "path \<Rightarrow> path \<times> node \<Rightarrow> bool" where
  "under r e = prefix r (fst e)"

definition remove_tree :: "path \<Rightarrow> filesystem \<Rightarrow> filesystem" where
  "remove_tree r t = filter (\<lambda>e. \<not> under r e) t"

definition rebase :: "path \<Rightarrow> path \<Rightarrow> path \<times> node \<Rightarrow> path \<times> node" where
  "rebase src dst e = (dst @ drop (length src) (fst e), snd e)"

definition tree_copy :: "path \<Rightarrow> path \<Rightarrow> filesystem \<Rightarrow> filesystem" where
  \<comment> \<open>the entries at and below \<open>src\<close>, renamed to lie at and below \<open>dst\<close>\<close>
  "tree_copy src dst t = map (rebase src dst) (filter (under src) t)"

subsection \<open>The outside world\<close>

text \<open>
  A \<open>world\<close> holds what the code can observe and change: the file system, the errors the
  operating system injects, the names \<open>mkstemp\<close> will draw, what the HTTP server answers
  to the successive streaming GETs, a record of the requests made, of the calls to the
  API client and of the sleeps, and what the clock shows (\<open>time.time()\<close> as \<open>now\<close>,
  \<open>time.strftime\<close> as \<open>timestamp\<close>; the clock of the model stands still).
\<close>

record response =
  status_code :: int
  reason :: string
  retry_after :: "string option"
  content_length :: "string option"
  content_disposition :: "string option"
  resp_url :: string
  body :: "bytes list"
  body_error :: "string option"

datatype http_result = Refused string | Answered response

datatype delay = Server_declared rat | Backoff rat | Fixed rat

record world =
  files :: filesystem
  io_error :: "fs_op \<times> path \<Rightarrow> string option"
  copy_error :: "path \<Rightarrow> (nat \<times> string) option"
  tmp_names :: "string list"
  script :: "http_result list"
  gets :: "string list"
  lookups :: nat
  slept :: "delay list"
  now :: int
  timestamp :: string

definition sleep :: "delay \<Rightarrow> world \<Rightarrow> world" where
  "sleep d w = w\<lparr>slept := slept w @ [d]\<rparr>"

definition requests_get :: "string \<Rightarrow> world \<Rightarrow> (error + response) \<times> world" where
  \<comment> \<open>\<open>requests.get(url, stream=True)\<close>: the next answer of the script.\<close>
  "requests_get url w =
     (case script w of
        [] \<Rightarrow> (Inl (ConnectionError ''connection failed''), w\<lparr>gets := gets w @ [url]\<rparr>)
      | Refused m # rest \<Rightarrow> (Inl (ConnectionError m), w\<lparr>script := rest, gets := gets w @ [url]\<rparr>)
      | Answered r # rest \<Rightarrow> (Inr r, w\<lparr>script := rest, gets := gets w @ [url]\<rparr>))"

subsection \<open>Operating-system primitives\<close>

definition mkdir_parents :: "path \<Rightarrow> world \<Rightarrow> (error + unit) \<times> world" where
  \<comment> \<open>\<open>Path.mkdir(parents=True, exist_ok=True)\<close>\<close>
  "mkdir_parents p w =
     (case io_error w (Op_mkdir, p) of
        Some m \<Rightarrow> (Inl (OSError m), w)
      | None \<Rightarrow>
          if list_ex (is_file (files w)) (prefixes p)
          then (Inl (OSError ''Not a directory''), w)
          else (Inr (), w\<lparr>files := foldl add_dir (files w) (prefixes p)\<rparr>))"

definition open_file :: "path \<Rightarrow> bool \<Rightarrow> world \<Rightarrow> (error + nat) \<times> world" where
  \<comment> \<open>\<open>open(p, "ab")\<close> when \<open>appending\<close>, else \<open>open(p, "wb")\<close>; the value is \<open>f.tell()\<close>.\<close>
  "open_file p appending w =
     (case io_error w (Op_open, p) of
        Some m \<Rightarrow> (Inl (OSError m), w)
      | None \<Rightarrow>
          if p = [] \<or> \<not> is_dir (files w) (parent p)
          then (Inl (FileNotFoundError ''No such file or directory''), w)
          else (case node_at (files w) p of
                  Some Dir \<Rightarrow> (Inl (OSError ''Is a directory''), w)
                | Some (File b) \<Rightarrow>
                    if appending then (Inr (length b), w)
                    else (Inr 0, w\<lparr>files := put p (File []) (files w)\<rparr>)
                | None \<Rightarrow> (Inr 0, w\<lparr>files := put p (File []) (files w)\<rparr>)))"

definition file_write :: "path \<Rightarrow> bytes \<Rightarrow> world \<Rightarrow> (error + unit) \<times> world" where
  "file_write p chunk w =
     (case io_error w (Op_write, p) of
        Some m \<Rightarrow> (Inl (OSError m), w)
      | None \<Rightarrow>
          (case node_at (files w) p of
             Some (File b) \<Rightarrow> (Inr (), w\<lparr>files := put p (File (b @ chunk)) (files w)\<rparr>)
           | _ \<Rightarrow> (Inl (OSError ''Bad file descriptor''), w)))"

definition read_bytes :: "world \<Rightarrow> path \<Rightarrow> error + bytes" where
  \<comment> \<open>\<open>open(path, "rb")\<close> and read to the end\<close>
  "read_bytes w p =
     (case io_error w (Op_read, p) of
        Some m \<Rightarrow> Inl (OSError m)
      | None \<Rightarrow>
          (case node_at (files w) p of
             Some (File b) \<Rightarrow> Inr b
           | Some Dir \<Rightarrow> Inl (OSError ''Is a directory'')
           | None \<Rightarrow> Inl (FileNotFoundError ''No such file or directory'')))"

definition has_children :: "filesystem \<Rightarrow> path \<Rightarrow> bool" where
  "has_children t p = list_ex (\<lambda>e. strict_prefix p (fst e)) t"

definition rename :: "path \<Rightarrow> path \<Rightarrow> world \<Rightarrow> (error + unit) \<times> world" where
  \<comment> \<open>POSIX \<open>rename\<close>: a file replaces a file, a directory replaces an empty directory.\<close>
  "rename src dst w =
     (let t = files w
      in if src = [] \<or> \<not> present t src
         then (Inl (FileNotFoundError ''No such file or directory''), w)
         else if dst = [] \<or> \<not> is_dir t (parent dst)
         then (Inl (FileNotFoundError ''No such file or directory''), w)
         else if src = dst then (Inr (), w)
         else if prefix src dst \<or> prefix dst src then (Inl (OSError ''Invalid argument''), w)
         else if is_dir t src \<and> is_file t dst then (Inl (OSError ''Not a directory''), w)
         else if is_file t src \<and> is_dir t dst then (Inl (OSError ''Is a directory''), w)
         else if is_dir t dst \<and> has_children t dst
         then (Inl (OSError ''Directory not empty''), w)
         else (Inr (), w\<lparr>files := tree_copy src dst t @ remove_tree src (remove_tree dst t)\<rparr>))"

definition os_replace :: "path \<Rightarrow> path \<Rightarrow> world \<Rightarrow> (error + unit) \<times> world" where
  "os_replace src dst w =
     (case io_error w (Op_replace, dst) of
        Some m \<Rightarrow> (Inl (OSError m), w)
      | None \<Rightarrow> rename src dst w)"

definition unlink :: "path \<Rightarrow> world \<Rightarrow> (error + unit) \<times> world" where
  "unlink p w =
     (case io_error w (Op_unlink, p) of
        Some m \<Rightarrow> (Inl (OSError m), w)
      | None \<Rightarrow>
          (case node_at (files w) p of
             Some (File b) \<Rightarrow> (Inr (), w\<lparr>files := AList.delete p (files w)\<rparr>)
           | Some Dir \<Rightarrow> (Inl (OSError ''Is a directory''), w)
           | None \<Rightarrow> (Inl (FileNotFoundError ''No such file or directory''), w)))"

definition rmtree :: "path \<Rightarrow> world \<Rightarrow> (error + unit) \<times> world" where
  \<comment> \<open>\<open>shutil.rmtree(p)\<close>; a refusal comes before anything is removed\<close>
  "rmtree p w =
     (case io_error w (Op_rmtree, p) of
        Some m \<Rightarrow> (Inl (OSError m), w)
      | None \<Rightarrow>
          (case node_at (files w) p of
             Some Dir \<Rightarrow> (Inr (), w\<lparr>files := remove_tree p (files w)\<rparr>)
           | Some (File b) \<Rightarrow> (Inl (OSError ''Not a directory''), w)
           | None \<Rightarrow> (Inl (FileNotFoundError ''No such file or directory''), w)))"

definition copytree :: "path \<Rightarrow> path \<Rightarrow> world \<Rightarrow> (error + unit) \<times> world" where
  \<comment> \<open>\<open>shutil.copytree(src, dst)\<close>: \<open>dst\<close> must not exist, its parents are created. A
      refusal comes before anything is copied.\<close>
  "copytree src dst w =
     (case io_error w (Op_copytree, dst) of
        Some m \<Rightarrow> (Inl (OSError m), w)
      | None \<Rightarrow>
          (let t = files w
           in if \<not> present t src then (Inl (FileNotFoundError ''No such file or directory''), w)
              else if \<not> is_dir t src then (Inl (OSError ''Not a directory''), w)
              else if present t dst then (Inl (OSError ''File exists''), w)
              else if prefix src dst then (Inl (OSError ''Cannot copy a directory into itself''), w)
              else if list_ex (is_file t) (prefixes dst) then (Inl (OSError ''Not a directory''), w)
              else (Inr (), w\<lparr>files := put dst Dir (tree_copy src dst t
                                      @ remove_tree dst (foldl add_dir t (prefixes (parent dst))))\<rparr>)))"

definition os_rename :: "path \<Rightarrow> path \<Rightarrow> world \<Rightarrow> (error + unit) \<times> world" where
  "os_rename src dst w =
     (case io_error w (Op_rename, dst) of
        Some m \<Rightarrow> (Inl (OSError m), w)
      | None \<Rightarrow> rename src dst w)"

definition copy2 :: "path \<Rightarrow> path \<Rightarrow> world \<Rightarrow> (error + unit) \<times> world" where
  \<comment> \<open>\<open>shutil.copy2(src, dst)\<close>: into \<open>dst\<close> when \<open>dst\<close> is a directory. The source is
      opened, then the target is opened for writing, which empties it, then the bytes are
      copied and last the metadata.\<close>
  "copy2 src dst w =
     (let d = (if is_dir (files w) dst then dst @ [name_of src] else dst)
      in if d = src then (Inl (OSError ''are the same file''), w)
         else
           (case read_bytes w src of
              Inl e \<Rightarrow> (Inl e, w)
            | Inr b \<Rightarrow>
                (case open_file d False w of
                   (Inl e, w1) \<Rightarrow> (Inl e, w1)
                 | (Inr n, w1) \<Rightarrow>
                     (case copy_error w1 d of
                        Some (k, m) \<Rightarrow>
                          (Inl (OSError m), w1\<lparr>files := put d (File (take k b)) (files w1)\<rparr>)
                      | None \<Rightarrow> (Inr (), w1\<lparr>files := put d (File b) (files w1)\<rparr>)))))"

definition shutil_move :: "path \<Rightarrow> path \<Rightarrow> world \<Rightarrow> (error + unit) \<times> world" where
  \<comment> \<open>\<open>shutil.move(src, dst)\<close>: into \<open>dst\<close> when \<open>dst\<close> is a directory, else onto
      \<open>dst\<close>. When \<open>os.rename\<close> raises, a directory is copied with \<open>copytree\<close> and removed
      with \<open>rmtree\<close>, a file is copied with \<open>copy2\<close> and unlinked.\<close>
  "shutil_move src dst w =
     (let real_dst = (if is_dir (files w) dst then dst @ [name_of src] else dst)
      in if is_dir (files w) dst \<and> src = dst then os_rename src dst w
         else if is_dir (files w) dst \<and> present (files w) real_dst
         then (Inl (OSError ''Destination path already exists''), w)
         else
           (case os_rename src real_dst w of
              (Inr u, w1) \<Rightarrow> (Inr (), w1)
            | (Inl e, w1) \<Rightarrow>
                if is_dir (files w1) src
                then (if prefix src dst
                      then (Inl (OSError ''Cannot move a directory into itself''), w1)
                      else (case copytree src real_dst w1 of
                              (Inl e2, w2) \<Rightarrow> (Inl e2, w2)
                            | (Inr u, w2) \<Rightarrow> rmtree src w2))
                else (case copy2 src real_dst w1 of
                        (Inl e2, w2) \<Rightarrow> (Inl e2, w2)
                      | (Inr u, w2) \<Rightarrow> unlink src w2)))"

definition tmp_file :: "path \<Rightarrow> string \<Rightarrow> string \<Rightarrow> path" where
  "tmp_file dir n sfx = dir @ [''tmp'' @ n @ sfx]"

definition mkstemp :: "path \<Rightarrow> string \<Rightarrow> world \<Rightarrow> (error + path) \<times> world" where
  \<comment> \<open>\<open>tempfile.mkstemp(dir, suffix)\<close>: creates an empty file under the first unused name.\<close>
  "mkstemp dir sfx w =
     (case io_error w (Op_mkstemp, dir) of
        Some m \<Rightarrow> (Inl (OSError m), w)
      | None \<Rightarrow>
          if \<not> is_dir (files w) dir then (Inl (FileNotFoundError ''No such file or directory''), w)
          else (case dropWhile (\<lambda>n. present (files w) (tmp_file dir n sfx)) (tmp_names w) of
                  [] \<Rightarrow> (Inl (OSError ''No usable temporary file name found''), w\<lparr>tmp_names := []\<rparr>)
                | n # ns \<Rightarrow>
                    (Inr (tmp_file dir n sfx),
                     w\<lparr>files := put (tmp_file dir n sfx) (File []) (files w), tmp_names := ns\<rparr>)))"

section \<open>utils.py\<close>

text \<open>
  Functions of the Python library are parameters of the model: the three digests of
  \<open>hashlib\<close>, the date parser behind \<open>parse_retry_after\<close>
  (\<open>parsedate_wait s\<close> is the number of seconds from now to the HTTP date \<open>s\<close>, or
  \<open>None\<close> where \<open>email.utils.parsedate_to_datetime\<close> raises), and the text of a float.
\<close>

record pyenv =
  sha1 :: "bytes \<Rightarrow> 160 word"
  sha256 :: "bytes \<Rightarrow> 256 word"
  md5 :: "bytes \<Rightarrow> 128 word"
  parsedate_wait :: "string \<Rightarrow> rat option"
  float_repr :: "rat \<Rightarrow> string"

definition hexdigit :: "nat \<Rightarrow> char" where
  "hexdigit d = (if d < 10 then char_of (48 + d) else char_of (87 + d))"

definition hexdigest :: "'a::len word \<Rightarrow> string" where
  "hexdigest x =
     map (\<lambda>i. hexdigit (unat (take_bit 4 (drop_bit (4 * i) x)))) (rev [0..<LENGTH('a) div 4])"

definition file_not_found :: "path \<Rightarrow> error" where
  "file_not_found p = FileNotFoundError (''File not found: '' @ str_of_path p)"

definition sha1_sum :: "pyenv \<Rightarrow> world \<Rightarrow> path \<Rightarrow> error + string" where
  "sha1_sum E w p =
     (if \<not> present (files w) p then Inl (file_not_found p)
      else case read_bytes w p of Inl e \<Rightarrow> Inl e | Inr b \<Rightarrow> Inr (hexdigest (sha1 E b)))"

definition sha256_sum :: "pyenv \<Rightarrow> world \<Rightarrow> path \<Rightarrow> error + string" where
  "sha256_sum E w p =
     (if \<not> present (files w) p then Inl (file_not_found p)
      else case read_bytes w p of Inl e \<Rightarrow> Inl e | Inr b \<Rightarrow> Inr (hexdigest (sha256 E b)))"

definition md5_sum :: "pyenv \<Rightarrow> world \<Rightarrow> path \<Rightarrow> error + string" where
  "md5_sum E w p =
     (if \<not> present (files w) p then Inl (file_not_found p)
      else case read_bytes w p of Inl e \<Rightarrow> Inl e | Inr b \<Rightarrow> Inr (hexdigest (md5 E b)))"

definition exponential_backoff :: "int \<Rightarrow> rat \<Rightarrow> error + delay" where
  \<comment> \<open>\<open>factor\<close> and \<open>max_interval\<close> keep their defaults 2.0 and 30.0 at every call. The
      power \<open>factor ** (attempt - 1)\<close> is taken on floats, after the two guards.\<close>
  "exponential_backoff attempt base =
     (if attempt < 1 then Inl (ValueError ''attempt must be >= 1'')
      else if base < 0
      then Inl (ValueError ''base, factor and max_interval must be positive numbers'')
      else if attempt - 1 \<ge> 1024
      then Inl (OverflowError ''(34, 'Numerical result out of range')'')
      else Inr (Backoff (min (base * 2 ^ nat (attempt - 1)) 30)))"

fun bit_length :: "nat \<Rightarrow> nat" where
  "bit_length n = (if n = 0 then 0 else Suc (bit_length (n div 2)))"

definition float_of_nat :: "nat \<Rightarrow> rat option" where
  \<comment> \<open>\<open>float(n)\<close>: the nearest number with 53 significant bits, ties to even; \<open>None\<close>
      is \<open>OverflowError\<close>\<close>
  "float_of_nat n =
     (let e = bit_length n - 53;
          q = n div 2 ^ e;
          r = n mod 2 ^ e;
          q' = (if 2 * r > 2 ^ e \<or> (2 * r = 2 ^ e \<and> odd q) then q + 1 else q)
      in if q' * 2 ^ e \<ge> 2 ^ 1024 then None else Some (of_nat (q' * 2 ^ e)))"

definition parse_retry_after :: "pyenv \<Rightarrow> string option \<Rightarrow> rat" where
  \<comment> \<open>Called on text only. \<open>int(s)\<close> raises on a superscript digit and on more than 4300
      digits, \<open>float\<close> on a number beyond the doubles; each falls through to the date
      branch.\<close>
  "parse_retry_after E v =
     (case v of
        None \<Rightarrow> 0
      | Some x \<Rightarrow>
          (let s = strip x;
               sec = (if isdigit s \<and> list_all ascii_digit s \<and> length s \<le> 4300
                      then float_of_nat (nat_of_digits s) else None)
           in case sec of
                Some n \<Rightarrow> n
              | None \<Rightarrow>
                  (case parsedate_wait E x of
                     Some wait \<Rightarrow> if wait > 0 then wait else 0
                   | None \<Rightarrow> 0)))"

section \<open>fileops.py\<close>

subsection \<open>atomic\_write\<close>

definition quiet_unlink :: "path \<Rightarrow> world \<Rightarrow> world" where
  \<comment> \<open>\<open>if p.exists(): try: p.unlink() except Exception: pass\<close>\<close>
  "quiet_unlink p w = (if present (files w) p then snd (unlink p w) else w)"

fun write_all :: "path \<Rightarrow> bytes list \<Rightarrow> world \<Rightarrow> (error + unit) \<times> world" where
  "write_all p [] w = (Inr (), w)"
| "write_all p (c # cs) w =
     (if c = [] then write_all p cs w
      else case file_write p c w of
             (Inl e, w') \<Rightarrow> (Inl e, w')
           | (Inr u, w') \<Rightarrow> write_all p cs w')"

definition write_payload ::
  "path \<Rightarrow> bytes option \<Rightarrow> bytes list option \<Rightarrow> world \<Rightarrow> (error + unit) \<times> world" where
  "write_payload tmp data chunks w =
     (case data of
        Some d \<Rightarrow> file_write tmp d w
      | None \<Rightarrow> (case chunks of Some cs \<Rightarrow> write_all tmp cs w | None \<Rightarrow> (Inr (), w)))"

definition unlink_then_move :: "path \<Rightarrow> path \<Rightarrow> world \<Rightarrow> (error + unit) \<times> world" where
  \<comment> \<open>\<open>if dest.exists(): dest.unlink()\<close> and then \<open>shutil.move(tmp, dest)\<close>\<close>
  "unlink_then_move src dst w =
     (case (if present (files w) dst then unlink dst w else (Inr (), w)) of
        (Inl e, w') \<Rightarrow> (Inl e, w')
      | (Inr u, w') \<Rightarrow> shutil_move src dst w')"

definition atomic_write_failed :: "path \<Rightarrow> error \<Rightarrow> error" where
  "atomic_write_failed dest e =
     DownloadError (''atomic_write failed for '' @ str_of_path dest @ '': '' @ str_of_error e)"

definition atomic_write ::
  "path \<Rightarrow> bytes option \<Rightarrow> bytes list option \<Rightarrow> string option \<Rightarrow> world
   \<Rightarrow> (error + path) \<times> world" where
  \<comment> \<open>Binary mode, the default. The inner \<open>DownloadError\<close> of the failed move is caught by
      the outer handler and wrapped again.\<close>
  "atomic_write dest_path data chunks tmp_suffix w =
     (case mkdir_parents (parent dest_path) w of
        (Inl e, w1) \<Rightarrow> (Inl e, w1)
      | (Inr u, w1) \<Rightarrow>
          if (data = None \<and> chunks = None) \<or> (data \<noteq> None \<and> chunks \<noteq> None)
          then (Inl (ValueError ''Provide exactly one of `data` or `chunks`.''), w1)
          else
            (case mkstemp (parent dest_path)
                    (case tmp_suffix of None \<Rightarrow> ''.tmp'' | Some s \<Rightarrow> if s = [] then ''.tmp'' else s) w1 of
               (Inl e, w2) \<Rightarrow> (Inl (atomic_write_failed dest_path e), w2)
             | (Inr tmp, w2) \<Rightarrow>
                 (case write_payload tmp data chunks w2 of
                    (Inl e, w3) \<Rightarrow> (Inl (atomic_write_failed dest_path e), quiet_unlink tmp w3)
                  | (Inr u, w3) \<Rightarrow>
                      (case os_replace tmp dest_path w3 of
                         (Inr u, w4) \<Rightarrow> (Inr dest_path, w4)
                       | (Inl e, w4) \<Rightarrow>
                           (case unlink_then_move tmp dest_path w4 of
                              (Inr u, w5) \<Rightarrow> (Inr dest_path, w5)
                            | (Inl e2, w5) \<Rightarrow>
                                (Inl (atomic_write_failed dest_path
                                       (DownloadError (''Failed to move temp file to destination: ''
                                                       @ str_of_error e2))),
                                 quiet_unlink tmp (quiet_unlink tmp w5)))))))"

subsection \<open>is\_same\_file\<close>

type_synonym hashes = "(string \<times> string) list"

definition or_empty :: "error + string \<Rightarrow> string" where
  \<comment> \<open>\<open>try: computed[a] = a_sum(path) except Exception: computed[a] = ""\<close>\<close>
  "or_empty r = (case r of Inl e \<Rightarrow> [] | Inr s \<Rightarrow> s)"

definition norm_expected :: "hashes \<Rightarrow> hashes" where
  \<comment> \<open>\<open>{k.lower(): v.lower() for k, v in expected_hashes.items() if v}\<close>: a key that
      comes again keeps its place and takes the later value.\<close>
  "norm_expected eh =
     foldl (\<lambda>d kv. AList.update (lower (fst kv)) (lower (snd kv)) d) []
       (filter (\<lambda>kv. snd kv \<noteq> []) eh)"

definition digest_matches :: "hashes \<Rightarrow> string \<times> string \<Rightarrow> bool" where
  "digest_matches computed ae =
     (case map_of computed (fst ae) of
        None \<Rightarrow> False
      | Some actual \<Rightarrow> actual \<noteq> [] \<and> lower actual = lower (snd ae))"

definition is_same_file ::
  "pyenv \<Rightarrow> world \<Rightarrow> path \<Rightarrow> hashes option \<Rightarrow> error + bool \<times> hashes" where
  "is_same_file E w local_path expected_hashes =
     (if \<not> present (files w) local_path then Inl (file_not_found local_path)
      else
        (let computed = [(''sha1'', or_empty (sha1_sum E w local_path)),
                         (''sha256'', or_empty (sha256_sum E w local_path)),
                         (''md5'', or_empty (md5_sum E w local_path))]
         in case expected_hashes of
              None \<Rightarrow> Inr (False, computed)
            | Some eh \<Rightarrow>
                if eh = [] then Inr (False, computed)
                else Inr (list_ex (digest_matches computed) (norm_expected eh), computed)))"



subsection \<open>safe\_remove\<close>

definition remove_once :: "path \<Rightarrow> world \<Rightarrow> (error + unit) \<times> world" where
  "remove_once p w =
     (if is_dir (files w) p then rmtree p w
      else if present (files w) p then unlink p w
      else (Inr (), w))"

function safe_remove_from :: "nat \<Rightarrow> path \<Rightarrow> nat \<Rightarrow> world \<Rightarrow> (error + unit) \<times> world" where
  "safe_remove_from attempt p retries w =
     (case remove_once p w of
        (Inr u, w') \<Rightarrow> (Inr (), w')
      | (Inl (FileNotFoundError m), w') \<Rightarrow> (Inr (), w')
      | (Inl (OSError m), w') \<Rightarrow>
          if attempt + 1 > retries then (Inl (OSError m), w')
          else safe_remove_from (attempt + 1) p retries (sleep (Fixed (1 / 5)) w')
      | (Inl e, w') \<Rightarrow> (Inl e, w'))"
  by pat_completeness auto
termination
  by (relation "measure (\<lambda>(attempt, p, retries, w). retries + 1 - attempt)") auto

definition safe_remove :: "path \<Rightarrow> world \<Rightarrow> (error + unit) \<times> world" where
  \<comment> \<open>\<open>retries\<close> and \<open>delay\<close> keep their defaults 3 and 0.2 at every call.\<close>
  "safe_remove p w = safe_remove_from 0 p 3 w"

subsection \<open>File names from the transport\<close>

fun filename_param :: "string list \<Rightarrow> string option" where
  \<comment> \<open>the loop over the parts of a Content-Disposition header; the first \<open>filename\<close> or
      \<open>filename*\<close> parameter ends it\<close>
  "filename_param [] = None"
| "filename_param (p # ps) =
     (if CHR ''='' \<notin> set p then filename_param ps
      else
        (let kv = strip p;
             k = lower (takeWhile (\<lambda>c. c \<noteq> CHR ''='') kv);
             v = strip_char (CHR 0x22) (strip (drop 1 (dropWhile (\<lambda>c. c \<noteq> CHR ''='') kv)))
         in if k = ''filename*''
            then Some (case after_marker [CHR 0x27, CHR 0x27] v of Some x \<Rightarrow> x | None \<Rightarrow> v)
            else if k = ''filename'' then Some v
            else filename_param ps))"

definition get_filename_from_content_disposition :: "string option \<Rightarrow> string option" where
  "get_filename_from_content_disposition header_value =
     (if \<not> truthy header_value then None
      else (let filename = filename_param (split_char (CHR '';'') [] (the header_value))
            in if truthy filename then Some (basename (the filename)) else None))"

definition get_filename_from_response :: "response \<Rightarrow> string option \<Rightarrow> string option" where
  "get_filename_from_response resp fallback_url =
     (let filename = get_filename_from_content_disposition (content_disposition resp)
      in if truthy filename then filename
         else (let u = (if truthy fallback_url then the fallback_url else resp_url resp)
               in if u \<noteq> []
                  then (let b = basename (rstrip_char (CHR ''/'') (hd (split_char (CHR ''?'') [] u)))
                        in if b \<noteq> [] then Some b else None)
                  else None))"

subsection \<open>write\_stream\_to\_tempfile\<close>

fun write_counting ::
  "path \<Rightarrow> bytes list \<Rightarrow> nat \<Rightarrow> world \<Rightarrow> (error option \<times> nat) \<times> world" where
  \<comment> \<open>\<open>for chunk in chunks: if chunk: f.write(chunk); written += len(chunk)\<close>, with the
      count reached when a write raises\<close>
  "write_counting p [] written w = ((None, written), w)"
| "write_counting p (c # cs) written w =
     (if c = [] then write_counting p cs written w
      else case file_write p c w of
             (Inl e, w') \<Rightarrow> ((Some e, written), w')
           | (Inr u, w') \<Rightarrow> write_counting p cs (written + length c) w')"

definition iter_content_to ::
  "response \<Rightarrow> path \<Rightarrow> nat \<Rightarrow> world \<Rightarrow> (error option \<times> nat) \<times> world" where
  \<comment> \<open>the chunks that arrive are written; a broken connection raises after them\<close>
  "iter_content_to resp part written w =
     (case write_counting part (body resp) written w of
        ((Some e, n), w') \<Rightarrow> ((Some e, n), w')
      | ((None, n), w') \<Rightarrow>
          (case body_error resp of
             Some m \<Rightarrow> ((Some (ConnectionError m), n), w')
           | None \<Rightarrow> ((None, n), w')))"

definition promote :: "path \<Rightarrow> path \<Rightarrow> world \<Rightarrow> (error + path) \<times> world" where
  "promote part dest w =
     (case os_replace part dest w of
        (Inr u, w1) \<Rightarrow> (Inr dest, w1)
      | (Inl e, w1) \<Rightarrow>
          (case unlink_then_move part dest w1 of
             (Inr u, w2) \<Rightarrow> (Inr dest, w2)
           | (Inl e2, w2) \<Rightarrow>
               (Inl (DownloadError (''Failed promoting part file to final destination: ''
                                    @ str_of_error e2)),
                quiet_unlink part w2)))"

definition stream_failed :: "path \<Rightarrow> error \<Rightarrow> error" where
  "stream_failed part e =
     DownloadError (''Failed writing stream to temp file '' @ str_of_path part @ '': ''
                    @ str_of_error e)"

definition is_download_error :: "error \<Rightarrow> bool" where
  "is_download_error e = (case e of DownloadError m \<Rightarrow> True | _ \<Rightarrow> False)"

definition write_stream_to_tempfile ::
  "response \<Rightarrow> path \<Rightarrow> bool \<Rightarrow> world \<Rightarrow> (error + path) \<times> world" where
  \<comment> \<open>\<open>progress_cb\<close> is \<open>None\<close>, as at its only call; \<open>total\<close> serves the callback only.
      The call \<open>atomic_write(dest, chunks=None, data=None)\<close> stands inside the \<open>try\<close>.\<close>
  "write_stream_to_tempfile resp dest resume w =
     (case mkdir_parents (parent dest) w of
        (Inl e, w1) \<Rightarrow> (Inl e, w1)
      | (Inr u, w1) \<Rightarrow>
          (let part = temp_part_path dest;
               appending = (resume \<and> present (files w1) part)
           in case open_file part appending w1 of
                (Inl e, w2) \<Rightarrow> (Inl (stream_failed part e), w2)
              | (Inr pos, w2) \<Rightarrow>
                  (case iter_content_to resp part pos w2 of
                     ((Some e, n), w3) \<Rightarrow> (Inl (stream_failed part e), w3)
                   | ((None, n), w3) \<Rightarrow>
                       (case atomic_write dest None None None w3 of
                          (Inl e, w4) \<Rightarrow>
                            (Inl (if is_download_error e then e else stream_failed part e), w4)
                        | (Inr p, w4) \<Rightarrow> promote part dest w4))))"

section \<open>download.py\<close>

record download_result =
  dr_url :: string
  dr_path :: "path option"
  dr_success :: bool
  dr_attempts :: int
  dr_bytes :: nat
  dr_error :: "string option"

record download_manager =
  dm_max_retries :: int
  dm_backoff_base :: rat

definition new_download_manager :: "int \<Rightarrow> rat \<Rightarrow> download_manager" where
  \<comment> \<open>\<open>DownloadManager.__init__\<close>: \<open>self.max_retries = max(1, int(max_retries))\<close>\<close>
  "new_download_manager max_retries backoff_base =
     \<lparr>dm_max_retries = max 1 max_retries, dm_backoff_base = backoff_base\<rparr>"

definition failed_attempt :: "string \<Rightarrow> path option \<Rightarrow> nat \<Rightarrow> string \<Rightarrow> download_result" where
  "failed_attempt u p n m =
     \<lparr>dr_url = u, dr_path = p, dr_success = False, dr_attempts = 1, dr_bytes = n,
      dr_error = Some m\<rparr>"

definition http_error_text :: "response \<Rightarrow> string" where
  "http_error_text resp = ''HTTP '' @ str_of_int (status_code resp) @ '': '' @ reason resp"

definition st_size :: "filesystem \<Rightarrow> path \<Rightarrow> nat" where
  \<comment> \<open>the size of a file; a directory counts as empty here\<close>
  "st_size t p = (case node_at t p of Some (File b) \<Rightarrow> length b | _ \<Rightarrow> 0)"

definition quiet_safe_remove :: "path \<Rightarrow> world \<Rightarrow> world" where
  \<comment> \<open>\<open>try: safe_remove(p) except Exception: pass\<close>\<close>
  "quiet_safe_remove p w = snd (safe_remove p w)"

definition promote_part :: "path \<Rightarrow> path \<Rightarrow> world \<Rightarrow> (error + unit) \<times> world" where
  \<comment> \<open>the promotion inside \<open>_attempt_download\<close>: the unlink of the fallback is guarded,
      the move is not\<close>
  "promote_part part dest w =
     (case os_replace part dest w of
        (Inr u, w1) \<Rightarrow> (Inr (), w1)
      | (Inl e, w1) \<Rightarrow> shutil_move part dest (quiet_unlink dest w1))"

definition verify_download ::
  "pyenv \<Rightarrow> string \<Rightarrow> path \<Rightarrow> hashes option \<Rightarrow> nat \<Rightarrow> world \<Rightarrow> download_result \<times> world" where
  \<comment> \<open>the checksum block at the end of \<open>_attempt_download\<close>\<close>
  "verify_download E u dest expected_hashes written w =
     (if expected_hashes = None \<or> expected_hashes = Some []
      then (\<lparr>dr_url = u, dr_path = Some dest, dr_success = True, dr_attempts = 1,
             dr_bytes = written, dr_error = None\<rparr>, w)
      else
        (case is_same_file E w dest expected_hashes of
           Inl e \<Rightarrow>
             (failed_attempt u (Some dest) written
                (''Checksum verification error: '' @ str_of_error e), w)
         | Inr (same, computed) \<Rightarrow>
             if \<not> same
             then (failed_attempt u (Some dest) written ''Checksum mismatch after download'',
                   quiet_safe_remove dest w)
             else (\<lparr>dr_url = u, dr_path = Some dest, dr_success = True, dr_attempts = 1,
                    dr_bytes = written, dr_error = None\<rparr>, w)))"

definition attempt_download ::
  "pyenv \<Rightarrow> string \<Rightarrow> path \<Rightarrow> hashes option \<Rightarrow> bool \<Rightarrow> world
   \<Rightarrow> (error + download_result) \<times> world" where
  \<comment> \<open>\<open>DownloadManager._attempt_download\<close>, without progress callback. The first
      \<open>mkdir\<close> stands outside every \<open>try\<close>.\<close>
  "attempt_download E u dest_path expected_hashes resume w =
     (case mkdir_parents (parent dest_path) w of
        (Inl e, w1) \<Rightarrow> (Inl e, w1)
      | (Inr x, w1) \<Rightarrow>
          (let part = temp_part_path dest_path;
               existing_size = (if resume \<and> present (files w1) part
                                then st_size (files w1) part else 0)
           in case requests_get u w1 of
                (Inl e, w2) \<Rightarrow> (Inr (failed_attempt u None 0 (str_of_error e)), w2)
              | (Inr resp, w2) \<Rightarrow>
                  if status_code resp = 404 \<or> status_code resp = 410
                  then (Inr (failed_attempt u None 0 (http_error_text resp)), w2)
                  else if status_code resp = 416
                  then (Inr (failed_attempt u None 0
                          ''416 Range Not Satisfiable: removed local .part; retrying fresh recommended''),
                        quiet_safe_remove part w2)
                  else if status_code resp = 429
                  then (Inr (failed_attempt u None 0
                          (''429 Rate limited; retry-after=''
                           @ float_repr E (parse_retry_after E (retry_after resp)))), w2)
                  else if status_code resp \<ge> 400
                  then (Inr (failed_attempt u None 0 (http_error_text resp)), w2)
                  else
                    (let filename = get_filename_from_response resp (Some u);
                         dest = (if truthy filename \<and> name_of dest_path = []
                                 then join (parent dest_path) (the filename) else dest_path);
                         appending = (existing_size \<noteq> 0 \<and> resume)
                     in case open_file part appending w2 of
                          (Inl e, w3) \<Rightarrow>
                            (Inr (failed_attempt u None existing_size (str_of_error e)), w3)
                        | (Inr pos, w3) \<Rightarrow>
                            (case iter_content_to resp part existing_size w3 of
                               ((Some e, n), w4) \<Rightarrow>
                                 (Inr (failed_attempt u None n (str_of_error e)), w4)
                             | ((None, n), w4) \<Rightarrow>
                                 (case promote_part part dest w4 of
                                    (Inl e, w5) \<Rightarrow>
                                      (Inr (failed_attempt u None n (str_of_error e)), w5)
                                  | (Inr y, w5) \<Rightarrow>
                                      (case verify_download E u dest expected_hashes n w5 of
                                         (r, w6) \<Rightarrow> (Inr r, w6)))))))"

definition error_has :: "string \<Rightarrow> download_result \<Rightarrow> bool" where
  \<comment> \<open>\<open>result.error and needle in (result.error or "")\<close>\<close>
  "error_has needle r = (truthy (dr_error r) \<and> contains needle (the (dr_error r)))"

definition first_truthy :: "string option \<Rightarrow> string option \<Rightarrow> string \<Rightarrow> string" where
  \<comment> \<open>\<open>a or b or c\<close>\<close>
  "first_truthy a b c = (if truthy a then the a else if truthy b then the b else c)"

function attempt_loop ::
  "pyenv \<Rightarrow> rat \<Rightarrow> string \<Rightarrow> path \<Rightarrow> hashes option \<Rightarrow> bool \<Rightarrow> int
   \<Rightarrow> int \<Rightarrow> string option \<Rightarrow> download_result option \<Rightarrow> world
   \<Rightarrow> (error + download_result) \<times> world" where
  \<comment> \<open>the \<open>while attempts < max_attempts\<close> loop of \<open>download_url_to_folder\<close> and what
      follows it; \<open>result\<close> is unbound until the first attempt returns\<close>
  "attempt_loop E base u dest_path expected_hashes resume max_attempts attempts last_err result w =
     (if attempts < max_attempts
      then
        (case attempt_download E u dest_path expected_hashes resume w of
           (Inl e, w1) \<Rightarrow> (Inl e, w1)
         | (Inr r, w1) \<Rightarrow>
             if dr_success r then (Inr (r\<lparr>dr_attempts := attempts + 1\<rparr>), w1)
             else if error_has ''429'' r
             then
               (let ra_val = parse_retry_after E (dr_error r)
                in case (if ra_val \<noteq> 0 \<and> ra_val > 0 then Inr (Server_declared ra_val)
                         else exponential_backoff (attempts + 1) base) of
                     Inl e \<Rightarrow> (Inl e, w1)
                   | Inr wait \<Rightarrow>
                       attempt_loop E base u dest_path expected_hashes resume max_attempts
                         (attempts + 1) last_err (Some r) (sleep wait w1))
             else if error_has ''416'' r \<or> error_has ''Checksum mismatch'' r
             then
               (let part = temp_part_path dest_path;
                    w2 = (if present (files w1) part then quiet_safe_remove part w1 else w1)
                in case exponential_backoff (attempts + 1) base of
                     Inl e \<Rightarrow> (Inl e, w2)
                   | Inr wait \<Rightarrow>
                       attempt_loop E base u dest_path expected_hashes resume max_attempts
                         (attempts + 1) last_err (Some r) (sleep wait w2))
             else
               (case exponential_backoff (attempts + 1) base of
                  Inl e \<Rightarrow> (Inl e, w1)
                | Inr wait \<Rightarrow>
                    attempt_loop E base u dest_path expected_hashes resume max_attempts
                      (attempts + 1) (dr_error r) (Some r) (sleep wait w1)))
      else
        (case result of
           None \<Rightarrow>
             (Inl (UnboundLocalError ''cannot access local variable 'result' ''), w)
         | Some r \<Rightarrow>
             (Inr (r\<lparr>dr_attempts := attempts,
                      dr_error := (if \<not> dr_success r
                                   then Some (first_truthy (dr_error r) last_err
                                                ''Unknown download failure'')
                                   else dr_error r)\<rparr>), w)))"
  by pat_completeness auto
termination
  by (relation "measure (\<lambda>(E, base, u, dest_path, expected_hashes, resume, max_attempts,
                          attempts, last_err, result, w). nat (max_attempts - attempts))") auto

definition attempt_budget :: "download_manager \<Rightarrow> int option \<Rightarrow> int" where
  \<comment> \<open>\<open>max_attempts = max_retries or self.max_retries\<close>\<close>
  "attempt_budget self max_retries =
     (case max_retries of
        None \<Rightarrow> dm_max_retries self
      | Some n \<Rightarrow> if n \<noteq> 0 then n else dm_max_retries self)"

definition tentative_dest :: "path \<Rightarrow> string option \<Rightarrow> string \<Rightarrow> world \<Rightarrow> path" where
  \<comment> \<open>\<open>folder / filename\<close>, or the basename of the URL, or \<open>download-\<close> and the time\<close>
  "tentative_dest folder filename u w =
     (if truthy filename then join folder (the filename)
      else (let b = basename (hd (split_char (CHR ''?'') [] u))
            in join folder (if b \<noteq> [] then b else ''download-'' @ str_of_int (now w))))"

definition download_url_to_folder ::
  "pyenv \<Rightarrow> download_manager \<Rightarrow> string \<Rightarrow> path \<Rightarrow> string option \<Rightarrow> hashes option
   \<Rightarrow> int option \<Rightarrow> bool \<Rightarrow> world \<Rightarrow> (error + download_result) \<times> world" where
  "download_url_to_folder E self u folder filename expected_hashes max_retries resume w =
     (case mkdir_parents folder w of
        (Inl e, w1) \<Rightarrow> (Inl e, w1)
      | (Inr x, w1) \<Rightarrow>
          attempt_loop E (dm_backoff_base self) u (tentative_dest folder filename u w1)
            expected_hashes resume (attempt_budget self max_retries) 0 None None w1)"

section \<open>installer.py\<close>

subsection \<open>Data\<close>

text \<open>
  The manifest is given as a parsed record, the first of the three forms that
  \<open>_load_manifest\<close> accepts; reading a document or an archive is outside the model.
  An entry of its \<open>files\<close> list is a JSON object with scalar values. The metadata that
  the API client returns is well typed: names and digests are text.
\<close>

datatype jval = JNull | JBool bool | JInt int | JStr string

type_synonym entry = "(string \<times> jval) list"

record manifest =
  m_name :: "string option"
  m_version :: "string option"
  m_files :: "entry list"
  m_overrides :: "string option"

record hash_entry =
  h_algorithm :: "string option"
  h_algo :: "string option"
  h_value :: "string option"
  h_hash :: "string option"

datatype hashes_field = No_hashes | Hash_dict hashes | Hash_list "hash_entry list"

record file_metadata =
  md_fileName :: "string option"
  md_displayName :: "string option"
  md_hashes :: hashes_field
  md_fileSize :: "int option"
  md_downloadUrl :: "string option"

text \<open>
  The client is duck-typed: a method it lacks is \<open>None\<close>. A metadata method returns
  \<open>Inr None\<close> for a value that is not a dict. Every call is a request to the API and is
  counted in \<open>lookups\<close>.
\<close>

record client =
  get_mod_file :: "(int \<Rightarrow> int \<Rightarrow> error + file_metadata option) option"
  get_file :: "(int \<Rightarrow> int \<Rightarrow> error + file_metadata option) option"
  get_modfile :: "(int \<Rightarrow> int \<Rightarrow> error + file_metadata option) option"
  get_file_download_url :: "(int \<Rightarrow> int \<Rightarrow> error + string option) option"
  get_file_download_link :: "(int \<Rightarrow> int \<Rightarrow> error + string option) option"

record install_item =
  project_id :: int
  file_id :: int
  required :: bool
  remote_file_name :: "string option"
  download_url :: "string option"
  expected_hashes :: hashes
  target_folder :: "path option"
  target_path :: "path option"
  size_bytes :: "int option"
  metadata :: "file_metadata option"

record install_result =
  ir_item :: install_item
  ir_success :: bool
  ir_path :: "path option"
  ir_downloaded_bytes :: nat
  ir_attempts :: int
  ir_error :: "string option"
  ir_checksum_ok :: "bool option"

text \<open>\<open>time_elapsed\<close>, a reading of the wall clock, is left out of the report.\<close>

record report =
  manifest_name :: "string option"
  manifest_version :: "string option"
  total_files :: nat
  successful :: nat
  failed :: nat
  results :: "install_result list"
  backups :: "path list"
  success :: bool

definition empty_report :: report where
  \<comment> \<open>\<open>ModPackInstallReport()\<close>\<close>
  "empty_report =
     \<lparr>manifest_name = None, manifest_version = None, total_files = 0, successful = 0, failed = 0,
      results = [], backups = [], success = False\<rparr>"

record installer =
  the_client :: client
  concurrency :: int
  max_retries :: int
  backoff_base :: rat
  backup_on_failure :: bool

definition new_installer :: "client \<Rightarrow> int \<Rightarrow> int \<Rightarrow> rat \<Rightarrow> bool \<Rightarrow> installer" where
  \<comment> \<open>\<open>ModPackInstaller.__init__\<close>\<close>
  "new_installer c conc retries base backup =
     \<lparr>the_client = c, concurrency = max 1 conc, max_retries = max 1 retries,
      backoff_base = base, backup_on_failure = backup\<rparr>"

record install_paths =
  instance_root :: path
  mods_dir :: path
  resourcepacks_dir :: path
  shaderpacks_dir :: path
  config_dir :: path
  overrides_dir :: path
  saves_dir :: path
  logs_dir :: "path option"

definition from_custom :: "path \<Rightarrow> install_paths" where
  "from_custom d =
     \<lparr>instance_root = d, mods_dir = d @ [''mods''],
      resourcepacks_dir = d @ [''resourcepacks''], shaderpacks_dir = d @ [''shaderpacks''],
      config_dir = d @ [''config''], overrides_dir = d @ [''overrides''],
      saves_dir = d @ [''saves''], logs_dir = Some (d @ [''logs''])\<rparr>"

fun mkdir_each :: "path list \<Rightarrow> world \<Rightarrow> (error + unit) \<times> world" where
  "mkdir_each [] w = (Inr (), w)"
| "mkdir_each (p # ps) w =
     (case mkdir_parents p w of
        (Inl e, w') \<Rightarrow> (Inl e, w')
      | (Inr u, w') \<Rightarrow> mkdir_each ps w')"

definition ensure_dirs :: "install_paths \<Rightarrow> world \<Rightarrow> (error + unit) \<times> world" where
  "ensure_dirs ip w =
     mkdir_each ([instance_root ip, mods_dir ip, resourcepacks_dir ip, shaderpacks_dir ip,
                  config_dir ip, overrides_dir ip, saves_dir ip]
                 @ (case logs_dir ip of None \<Rightarrow> [] | Some l \<Rightarrow> [l])) w"

subsection \<open>build\_plan\_from\_manifest\<close>

definition jtruthy :: "jval \<Rightarrow> bool" where
  "jtruthy v = (case v of JNull \<Rightarrow> False | JBool b \<Rightarrow> b | JInt i \<Rightarrow> i \<noteq> 0 | JStr t \<Rightarrow> t \<noteq> [])"

definition entry_get :: "entry \<Rightarrow> string \<Rightarrow> jval" where
  \<comment> \<open>\<open>entry.get(key)\<close>\<close>
  "entry_get e k = (case map_of e k of None \<Rightarrow> JNull | Some v \<Rightarrow> v)"

definition jor :: "jval \<Rightarrow> jval \<Rightarrow> jval" where
  \<comment> \<open>\<open>a or b\<close>\<close>
  "jor a b = (if jtruthy a then a else b)"

definition int_of_text :: "string \<Rightarrow> error + int" where
  \<comment> \<open>\<open>int(s)\<close> on text: blanks around, a sign, decimal digits, single underscores
      between digits\<close>
  "int_of_text t =
     (let u = strip t;
          neg = prefix ''-'' u;
          d = (if prefix ''-'' u \<or> prefix ''+'' u then drop 1 u else u);
          groups = split_char (CHR ''_'') [] d
      in if list_all (\<lambda>g. g \<noteq> [] \<and> list_all ascii_digit g) groups
         then Inr ((if neg then -1 else 1) * int (nat_of_digits (concat groups)))
         else Inl (ValueError (''invalid literal for int() with base 10: '' @ t)))"

definition py_int :: "jval \<Rightarrow> error + int" where
  "py_int v =
     (case v of
        JInt i \<Rightarrow> Inr i
      | JBool b \<Rightarrow> Inr (if b then 1 else 0)
      | JStr t \<Rightarrow> int_of_text t
      | JNull \<Rightarrow> Inl (TypeError ''int() argument must be a string or a real number''))"

definition sor :: "string option \<Rightarrow> string option \<Rightarrow> string option" where
  \<comment> \<open>\<open>a or b\<close> on optional text\<close>
  "sor a b = (if truthy a then a else b)"

definition hashes_of_list :: "hash_entry list \<Rightarrow> hashes" where
  "hashes_of_list hs =
     foldl (\<lambda>d h. (let a = sor (h_algorithm h) (h_algo h); v = sor (h_value h) (h_hash h)
                   in if truthy a \<and> truthy v then AList.update (lower (the a)) (the v) d else d))
       [] hs"

definition hashes_of_metadata :: "file_metadata \<Rightarrow> hashes" where
  "hashes_of_metadata md =
     (case md_hashes md of
        No_hashes \<Rightarrow> []
      | Hash_dict d \<Rightarrow> d
      | Hash_list hs \<Rightarrow> hashes_of_list hs)"

definition metadata_method :: "client \<Rightarrow> (int \<Rightarrow> int \<Rightarrow> error + file_metadata option) option" where
  \<comment> \<open>the first of \<open>get_mod_file\<close>, \<open>get_file\<close>, \<open>get_modfile\<close> that the client has\<close>
  "metadata_method c =
     (case get_mod_file c of
        Some f \<Rightarrow> Some f
      | None \<Rightarrow> (case get_file c of Some f \<Rightarrow> Some f | None \<Rightarrow> get_modfile c))"

definition fetch_metadata :: "client \<Rightarrow> int \<Rightarrow> int \<Rightarrow> world \<Rightarrow> file_metadata option \<times> world" where
  \<comment> \<open>\<open>try: ... metadata = fn(...) except Exception: metadata = None\<close>\<close>
  "fetch_metadata c pid fid w =
     (case metadata_method c of
        None \<Rightarrow> (None, w)
      | Some f \<Rightarrow>
          (case f pid fid of Inl e \<Rightarrow> None | Inr md \<Rightarrow> md, w\<lparr>lookups := lookups w + 1\<rparr>))"

definition url_method :: "client \<Rightarrow> (int \<Rightarrow> int \<Rightarrow> error + string option) option" where
  "url_method c =
     (case get_file_download_url c of Some f \<Rightarrow> Some f | None \<Rightarrow> get_file_download_link c)"

definition fetch_url :: "client \<Rightarrow> int \<Rightarrow> int \<Rightarrow> world \<Rightarrow> string option \<times> world" where
  \<comment> \<open>\<open>try: download_url = ... except Exception: download_url = None\<close>\<close>
  "fetch_url c pid fid w =
     (case url_method c of
        None \<Rightarrow> (None, w)
      | Some f \<Rightarrow>
          (case f pid fid of Inl e \<Rightarrow> None | Inr u \<Rightarrow> u, w\<lparr>lookups := lookups w + 1\<rparr>))"

definition new_item :: "int \<Rightarrow> int \<Rightarrow> bool \<Rightarrow> install_item" where
  \<comment> \<open>\<open>InstallItem(project_id=.., file_id=.., required=..)\<close>\<close>
  "new_item pid fid req =
     \<lparr>project_id = pid, file_id = fid, required = req, remote_file_name = None,
      download_url = None, expected_hashes = [], target_folder = None, target_path = None,
      size_bytes = None, metadata = None\<rparr>"

definition with_metadata :: "file_metadata option \<Rightarrow> install_item \<Rightarrow> install_item" where
  \<comment> \<open>the block under \<open>if isinstance(metadata, dict)\<close>\<close>
  "with_metadata mdo item =
     (case mdo of
        None \<Rightarrow> item
      | Some md \<Rightarrow>
          item\<lparr>metadata := Some md,
               remote_file_name := sor (md_fileName md) (sor (md_displayName md) None),
               size_bytes := (case md_fileSize md of
                                Some n \<Rightarrow> if n \<noteq> 0 then Some n else size_bytes item
                              | None \<Rightarrow> size_bytes item),
               expected_hashes := hashes_of_metadata md\<rparr>)"

definition url_basename :: "string \<Rightarrow> string" where
  \<comment> \<open>\<open>url.split("?")[0].rstrip("/").split("/")[-1]\<close>\<close>
  "url_basename u = last (split_char (CHR ''/'') [] (rstrip_char (CHR ''/'') (hd (split_char (CHR ''?'') [] u))))"

definition placeholder_name :: "install_item \<Rightarrow> string" where
  "placeholder_name item = str_of_int (project_id item) @ ''-'' @ str_of_int (file_id item) @ ''.jar''"

definition with_target :: "install_paths \<Rightarrow> string option \<Rightarrow> install_item \<Rightarrow> install_item" where
  \<comment> \<open>the end of the loop body: URL, default folder, file name, target path\<close>
  "with_target ip u item =
     (let i1 = item\<lparr>download_url := u, target_folder := Some (mods_dir ip)\<rparr>;
          i2 = (if \<not> truthy (remote_file_name i1) \<and> truthy u \<and> url_basename (the u) \<noteq> []
                then i1\<lparr>remote_file_name := Some (url_basename (the u))\<rparr> else i1)
      in if truthy (remote_file_name i2)
         then i2\<lparr>target_path := Some (join (mods_dir ip) (basename (the (remote_file_name i2))))\<rparr>
         else i2\<lparr>remote_file_name := Some (placeholder_name i2),
                 target_path := Some (join (mods_dir ip) (placeholder_name i2))\<rparr>)"

definition plan_entry ::
  "client \<Rightarrow> install_paths \<Rightarrow> entry \<Rightarrow> world \<Rightarrow> (error + install_item option) \<times> world" where
  \<comment> \<open>one turn of the loop of \<open>build_plan_from_manifest\<close>; \<open>None\<close> is \<open>continue\<close>\<close>
  "plan_entry c ip e w =
     (let projectID = jor (entry_get e ''projectID'') (jor (entry_get e ''projectId'') (entry_get e ''project''));
          fileID = jor (entry_get e ''fileID'') (jor (entry_get e ''fileId'') (entry_get e ''file''));
          req = (case map_of e ''required'' of None \<Rightarrow> True | Some v \<Rightarrow> jtruthy v)
      in if projectID = JNull \<or> fileID = JNull then (Inr None, w)
         else
           (case py_int projectID of
              Inl x \<Rightarrow> (Inl x, w)
            | Inr pid \<Rightarrow>
                (case py_int fileID of
                   Inl x \<Rightarrow> (Inl x, w)
                 | Inr fid \<Rightarrow>
                     (case fetch_metadata c pid fid w of
                        (mdo, w1) \<Rightarrow>
                          (case fetch_url c pid fid w1 of
                             (u, w2) \<Rightarrow>
                               (Inr (Some (with_target ip u (with_metadata mdo (new_item pid fid req)))),
                                w2))))))"

fun build_plan_from_manifest ::
  "client \<Rightarrow> install_paths \<Rightarrow> entry list \<Rightarrow> world \<Rightarrow> (error + install_item list) \<times> world" where
  \<comment> \<open>the loop over \<open>manifest.get("files") or []\<close>\<close>
  "build_plan_from_manifest c ip [] w = (Inr [], w)"
| "build_plan_from_manifest c ip (e # es) w =
     (case plan_entry c ip e w of
        (Inl x, w1) \<Rightarrow> (Inl x, w1)
      | (Inr io, w1) \<Rightarrow>
          (case build_plan_from_manifest c ip es w1 of
             (Inl x, w2) \<Rightarrow> (Inl x, w2)
           | (Inr items, w2) \<Rightarrow>
               (Inr ((case io of None \<Rightarrow> [] | Some i \<Rightarrow> [i]) @ items), w2)))"

subsection \<open>The per-item download task\<close>

record task_state =
  ts_item :: install_item
  ts_attempts :: int
  ts_last_err :: "string option"
  ts_downloaded_bytes :: nat
  ts_success :: bool
  ts_checksum_ok :: "bool option"
  ts_final_path :: "path option"

definition failing :: "task_state \<Rightarrow> error \<Rightarrow> task_state" where
  \<comment> \<open>\<open>except Exception as exc: last_err = str(exc)\<close>\<close>
  "failing st e = st\<lparr>ts_last_err := Some (str_of_error e)\<rparr>"

definition seconds :: "delay \<Rightarrow> rat" where
  "seconds d = (case d of Server_declared x \<Rightarrow> x | Backoff x \<Rightarrow> x | Fixed x \<Rightarrow> x)"

definition resolve_url :: "client \<Rightarrow> install_item \<Rightarrow> world \<Rightarrow> (error + install_item) \<times> world" where
  "resolve_url c it w =
     (if truthy (download_url it) then (Inr it, w)
      else
        (case get_file_download_url c of
           Some f \<Rightarrow>
             (case f (project_id it) (file_id it) of
                Inl e \<Rightarrow> (Inl e, w\<lparr>lookups := lookups w + 1\<rparr>)
              | Inr u \<Rightarrow> (Inr (it\<lparr>download_url := u\<rparr>), w\<lparr>lookups := lookups w + 1\<rparr>))
         | None \<Rightarrow>
             (Inr (it\<lparr>download_url :=
                        (case metadata it of Some md \<Rightarrow> md_downloadUrl md | None \<Rightarrow> None)\<rparr>), w)))"

definition name_from_response :: "response \<Rightarrow> install_item \<Rightarrow> error \<times> install_item + install_item" where
  \<comment> \<open>\<open>if not it.remote_file_name: fn = get_filename_from_response(..)\<close>; a missing
      target folder makes \<open>it.target_folder / fn\<close> raise after the name is stored\<close>
  "name_from_response resp it =
     (if truthy (remote_file_name it) then Inr it
      else
        (case get_filename_from_response resp (download_url it) of
           None \<Rightarrow> Inr it
         | Some fn \<Rightarrow>
             (case target_folder it of
                None \<Rightarrow> Inl (TypeError ''unsupported operand type(s) for /'',
                            it\<lparr>remote_file_name := Some fn\<rparr>)
              | Some tf \<Rightarrow> Inr (it\<lparr>remote_file_name := Some fn, target_path := Some (join tf fn)\<rparr>))))"

definition dest_path_of :: "install_item \<Rightarrow> error + path" where
  \<comment> \<open>\<open>it.target_path or (it.target_folder / (it.remote_file_name or f"{pid}-{fid}"))\<close>\<close>
  "dest_path_of it =
     (case target_path it of
        Some p \<Rightarrow> Inr p
      | None \<Rightarrow>
          (case target_folder it of
             None \<Rightarrow> Inl (TypeError ''unsupported operand type(s) for /'')
           | Some tf \<Rightarrow>
               Inr (join tf (if truthy (remote_file_name it) then the (remote_file_name it)
                             else str_of_int (project_id it) @ ''-'' @ str_of_int (file_id it)))))"

definition verification_error :: "path \<Rightarrow> error \<Rightarrow> world \<Rightarrow> error \<times> world" where
  \<comment> \<open>\<open>except Exception as ex: safe_remove(written_path); raise DownloadError(..)\<close>\<close>
  "verification_error written_path ex w =
     (case safe_remove written_path w of
        (Inl e2, w') \<Rightarrow> (e2, w')
      | (Inr u, w') \<Rightarrow>
          (DownloadError (''Checksum verification error: '' @ str_of_error ex), w'))"

definition verify_written ::
  "pyenv \<Rightarrow> hashes \<Rightarrow> path \<Rightarrow> world \<Rightarrow> (bool option \<times> error option) \<times> world" where
  \<comment> \<open>the checksum block of \<open>_download_task\<close>: the new \<open>checksum_ok\<close> and the exception
      that leaves the block, if any\<close>
  "verify_written E eh written_path w =
     (if eh = [] then ((None, None), w)
      else
        (case is_same_file E w written_path (Some eh) of
           Inl ex \<Rightarrow>
             (case verification_error written_path ex w of (e, w') \<Rightarrow> ((None, Some e), w'))
         | Inr (same, computed) \<Rightarrow>
             if same then ((Some True, None), w)
             else
               (case safe_remove written_path w of
                  (Inl ex, w1) \<Rightarrow>
                    (case verification_error written_path ex w1 of
                       (e, w') \<Rightarrow> ((Some False, Some e), w'))
                | (Inr u, w1) \<Rightarrow>
                    (case verification_error written_path
                            (DownloadError ''Checksum mismatch after download'') w1 of
                       (e, w') \<Rightarrow> ((Some False, Some e), w')))))"

definition stream_and_verify ::
  "pyenv \<Rightarrow> task_state \<Rightarrow> response \<Rightarrow> world \<Rightarrow> task_state \<times> world" where
  \<comment> \<open>the body of \<open>with requests.get(..) as resp\<close> after the status check\<close>
  "stream_and_verify E st resp w =
     (case name_from_response resp (ts_item st) of
        Inl (e, it1) \<Rightarrow> (failing (st\<lparr>ts_item := it1\<rparr>) e, w)
      | Inr it1 \<Rightarrow>
          (let st1 = st\<lparr>ts_item := it1\<rparr>
           in case dest_path_of it1 of
                Inl e \<Rightarrow> (failing st1 e, w)
              | Inr dest_path \<Rightarrow>
                  (case mkdir_parents (parent dest_path) w of
                     (Inl e, w1) \<Rightarrow> (failing st1 e, w1)
                   | (Inr u, w1) \<Rightarrow>
                       (case write_stream_to_tempfile resp dest_path True w1 of
                          (Inl e, w2) \<Rightarrow> (failing st1 e, w2)
                        | (Inr written_path, w2) \<Rightarrow>
                            (let st2 = st1\<lparr>ts_downloaded_bytes :=
                                              (if present (files w2) written_path
                                               then st_size (files w2) written_path else 0)\<rparr>
                             in case verify_written E (expected_hashes it1) written_path w2 of
                                  ((ok, Some e), w3) \<Rightarrow>
                                    (failing (st2\<lparr>ts_checksum_ok := ok\<rparr>) e, w3)
                                | ((ok, None), w3) \<Rightarrow>
                                    (st2\<lparr>ts_checksum_ok := ok, ts_success := True,
                                         ts_final_path := Some written_path,
                                         ts_last_err := None\<rparr>, w3))))))"

definition task_attempt ::
  "pyenv \<Rightarrow> installer \<Rightarrow> int \<Rightarrow> task_state \<Rightarrow> world \<Rightarrow> task_state \<times> world" where
  \<comment> \<open>one turn of \<open>for attempt in range(1, self.max_retries + 1)\<close>, up to the sleep of the
      handler. The text of the 429 message shows the nominal delay.\<close>
  "task_attempt E self attempt st w =
     (let st0 = st\<lparr>ts_attempts := attempt\<rparr>
      in case resolve_url (the_client self) (ts_item st0) w of
           (Inl e, w1) \<Rightarrow> (failing st0 e, w1)
         | (Inr it1, w1) \<Rightarrow>
             (let st1 = st0\<lparr>ts_item := it1\<rparr>
              in if \<not> truthy (download_url it1)
                 then (failing st1 (DownloadError (''No download URL for ''
                         @ str_of_int (project_id it1) @ ''/'' @ str_of_int (file_id it1))), w1)
                 else
                   (case requests_get (the (download_url it1)) w1 of
                      (Inl e, w2) \<Rightarrow> (failing st1 e, w2)
                    | (Inr resp, w2) \<Rightarrow>
                        if status_code resp \<ge> 400
                        then
                          (if status_code resp = 429
                           then
                             (let ra = parse_retry_after E (retry_after resp)
                              in case (if ra \<noteq> 0 \<and> ra > 0 then Inr (Server_declared ra)
                                       else exponential_backoff attempt (backoff_base self)) of
                                   Inl e \<Rightarrow> (failing st1 e, w2)
                                 | Inr wait \<Rightarrow>
                                     (failing st1 (DownloadError (''429 Rate limited; waited ''
                                        @ float_repr E (seconds wait) @ ''s then retrying'')),
                                      sleep wait w2))
                           else (failing st1 (DownloadError (http_error_text resp @ '' for URL ''
                                   @ the (download_url it1))), w2))
                        else stream_and_verify E st1 resp w2)))"

function task_loop ::
  "pyenv \<Rightarrow> installer \<Rightarrow> int \<Rightarrow> task_state \<Rightarrow> world
   \<Rightarrow> (error \<times> install_item + task_state) \<times> world" where
  \<comment> \<open>the retry loop; \<open>exponential_backoff\<close> in the handler is not guarded, so its
      exception leaves the task\<close>
  "task_loop E self attempt st w =
     (if attempt \<le> max_retries self
      then
        (case task_attempt E self attempt st w of
           (st1, w1) \<Rightarrow>
             if ts_success st1 then (Inr st1, w1)
             else if attempt < max_retries self
             then
               (case exponential_backoff attempt (backoff_base self) of
                  Inl e \<Rightarrow> (Inl (e, ts_item st1), w1)
                | Inr wait \<Rightarrow> task_loop E self (attempt + 1) st1 (sleep wait w1))
             else (Inr st1, w1))
      else (Inr st, w))"
  by pat_completeness auto
termination
  by (relation "measure (\<lambda>(E, self, attempt, st, w). nat (max_retries self + 1 - attempt))") auto

definition size_entry :: "hashes \<Rightarrow> nat" where
  \<comment> \<open>\<open>computed.get("size", 0) or 0\<close>; \<open>is_same_file\<close> computes no such key\<close>
  "size_entry computed = (case map_of computed ''size'' of None \<Rightarrow> 0 | Some v \<Rightarrow> nat_of_digits v)"

definition already_installed :: "pyenv \<Rightarrow> install_item \<Rightarrow> world \<Rightarrow> install_result option" where
  \<comment> \<open>the guarded check at the head of \<open>_download_task\<close>\<close>
  "already_installed E it w =
     (case target_path it of
        None \<Rightarrow> None
      | Some final_path \<Rightarrow>
          if present (files w) final_path \<and> expected_hashes it \<noteq> []
          then
            (case is_same_file E w final_path (Some (expected_hashes it)) of
               Inr (True, computed) \<Rightarrow>
                 Some \<lparr>ir_item = it, ir_success = True, ir_path = Some final_path,
                       ir_downloaded_bytes = size_entry computed, ir_attempts = 0,
                       ir_error = None, ir_checksum_ok = Some True\<rparr>
             | _ \<Rightarrow> None)
          else None)"

definition download_task ::
  "pyenv \<Rightarrow> installer \<Rightarrow> install_item \<Rightarrow> world
   \<Rightarrow> (error \<times> install_item + install_result) \<times> world" where
  \<comment> \<open>\<open>_download_task\<close>\<close>
  "download_task E self it w =
     (case already_installed E it w of
        Some r \<Rightarrow> (Inr r, w)
      | None \<Rightarrow>
          (case task_loop E self 1
                  \<lparr>ts_item = it, ts_attempts = 0, ts_last_err = None, ts_downloaded_bytes = 0,
                   ts_success = False, ts_checksum_ok = None, ts_final_path = target_path it\<rparr> w of
             (Inl x, w') \<Rightarrow> (Inl x, w')
           | (Inr st, w') \<Rightarrow>
               (Inr \<lparr>ir_item = ts_item st, ir_success = ts_success st,
                     ir_path = (if ts_success st then ts_final_path st
                                else target_path (ts_item st)),
                     ir_downloaded_bytes = ts_downloaded_bytes st,
                     ir_attempts = ts_attempts st, ir_error = ts_last_err st,
                     ir_checksum_ok = ts_checksum_ok st\<rparr>, w')))"

subsection \<open>install\_from\_manifest\<close>

text \<open>
  The worker pool is modelled by running the tasks one after the other in plan order, so
  the results stand in plan order; the progress callback, whose exceptions are swallowed,
  is left out.
\<close>

definition crashed_result :: "installer \<Rightarrow> install_item \<Rightarrow> error \<Rightarrow> install_result" where
  \<comment> \<open>\<open>InstallResult(item=it, success=False, error=str(e), attempts=self.max_retries)\<close>\<close>
  "crashed_result self it e =
     \<lparr>ir_item = it, ir_success = False, ir_path = None, ir_downloaded_bytes = 0,
      ir_attempts = max_retries self, ir_error = Some (str_of_error e), ir_checksum_ok = None\<rparr>"

fun run_tasks ::
  "pyenv \<Rightarrow> installer \<Rightarrow> install_item list \<Rightarrow> world \<Rightarrow> install_result list \<times> world" where
  "run_tasks E self [] w = ([], w)"
| "run_tasks E self (it # its) w =
     (case download_task E self it w of
        (Inl (e, it'), w1) \<Rightarrow>
          (case run_tasks E self its w1 of (rs, w2) \<Rightarrow> (crashed_result self it' e # rs, w2))
      | (Inr r, w1) \<Rightarrow>
          (case run_tasks E self its w1 of (rs, w2) \<Rightarrow> (r # rs, w2)))"

definition backup_root_of :: "path \<Rightarrow> path" where
  \<comment> \<open>\<open>instance_root.parent / f"{instance_root.name}-backups"\<close>\<close>
  "backup_root_of d = parent d @ [name_of d @ ''-backups'']"

definition backup_dest_of :: "path \<Rightarrow> string \<Rightarrow> path" where
  \<comment> \<open>\<open>backup_root / f"{instance_root.name}-{ts}"\<close>\<close>
  "backup_dest_of d ts = backup_root_of d @ [name_of d @ ''-'' @ ts]"

definition make_backup :: "path \<Rightarrow> world \<Rightarrow> path option \<times> world" where
  \<comment> \<open>the guarded backup: \<open>None\<close> when the directory or the copy fails\<close>
  "make_backup d w =
     (case mkdir_parents (backup_root_of d) w of
        (Inl e, w1) \<Rightarrow> (None, w1)
      | (Inr u, w1) \<Rightarrow>
          (case copytree d (backup_dest_of d (timestamp w1)) w1 of
             (Inl e, w2) \<Rightarrow> (None, w2)
           | (Inr u, w2) \<Rightarrow> (Some (backup_dest_of d (timestamp w1)), w2)))"

definition dry_run_result :: "install_item \<Rightarrow> install_result" where
  \<comment> \<open>\<open>InstallResult(item=it, success=False, path=it.target_path, attempts=0,
      error="dry-run")\<close>\<close>
  "dry_run_result it =
     \<lparr>ir_item = it, ir_success = False, ir_path = target_path it, ir_downloaded_bytes = 0,
      ir_attempts = 0, ir_error = Some ''dry-run'', ir_checksum_ok = None\<rparr>"

definition target_folders :: "install_item list \<Rightarrow> path list" where
  "target_folders its = concat (map (\<lambda>it. case target_folder it of None \<Rightarrow> [] | Some f \<Rightarrow> [f]) its)"

fun copy_files :: "path \<Rightarrow> path list \<Rightarrow> world \<Rightarrow> (error + unit) \<times> world" where
  \<comment> \<open>\<open>for f in files\<close>: the guarded unlink of an existing target, then the copy\<close>
  "copy_files dest_dir [] w = (Inr (), w)"
| "copy_files dest_dir (srcf # fs) w =
     (case copy2 srcf (dest_dir @ [name_of srcf]) (quiet_unlink (dest_dir @ [name_of srcf]) w) of
        (Inl e, w1) \<Rightarrow> (Inl e, w1)
      | (Inr u, w1) \<Rightarrow> copy_files dest_dir fs w1)"

definition dirs_below :: "filesystem \<Rightarrow> path \<Rightarrow> path list" where
  \<comment> \<open>the directories that \<open>os.walk(src)\<close> visits, \<open>src\<close> first\<close>
  "dirs_below t src =
     (if is_dir t src
      then src # map fst (filter (\<lambda>e. snd e = Dir \<and> strict_prefix src (fst e)) t)
      else [])"

definition files_in :: "filesystem \<Rightarrow> path \<Rightarrow> path list" where
  "files_in t d = map fst (filter (\<lambda>e. snd e \<noteq> Dir \<and> fst e \<noteq> [] \<and> parent (fst e) = d) t)"

fun walk_copy ::
  "filesystem \<Rightarrow> path \<Rightarrow> path \<Rightarrow> path list \<Rightarrow> world \<Rightarrow> (error + unit) \<times> world" where
  \<comment> \<open>the loop over \<open>os.walk(overrides_source)\<close>, on the listing taken at its start\<close>
  "walk_copy t src dst [] w = (Inr (), w)"
| "walk_copy t src dst (d # ds) w =
     (case mkdir_parents (dst @ drop (length src) d) w of
        (Inl e, w1) \<Rightarrow> (Inl e, w1)
      | (Inr u, w1) \<Rightarrow>
          (case copy_files (dst @ drop (length src) d) (files_in t d) w1 of
             (Inl e, w2) \<Rightarrow> (Inl e, w2)
           | (Inr u, w2) \<Rightarrow> walk_copy t src dst ds w2))"

definition apply_overrides :: "manifest \<Rightarrow> path \<Rightarrow> bool \<Rightarrow> world \<Rightarrow> world" where
  \<comment> \<open>the guarded overrides block for a manifest given as a record: the declared path is
      taken from the working directory, which is the root of the model; nothing is copied
      unless \<open>overwrite\<close> holds\<close>
  "apply_overrides m d overwrite w =
     (if truthy (m_overrides m) \<and> present (files w) (join [] (the (m_overrides m))) \<and> overwrite
      then snd (walk_copy (files w) (join [] (the (m_overrides m))) d
                  (dirs_below (files w) (join [] (the (m_overrides m)))) w)
      else w)"

definition rollback :: "path \<Rightarrow> path \<Rightarrow> world \<Rightarrow> world" where
  \<comment> \<open>\<open>try: safe_remove(instance_root); shutil.move(backup_path, instance_root)
      except Exception: pass\<close>\<close>
  "rollback d backup_path w =
     (case safe_remove d w of
        (Inl e, w1) \<Rightarrow> w1
      | (Inr u, w1) \<Rightarrow> snd (shutil_move backup_path d w1))"

definition count_successful :: "install_result list \<Rightarrow> nat" where
  "count_successful rs = length (filter ir_success rs)"

definition count_failed :: "install_result list \<Rightarrow> nat" where
  \<comment> \<open>\<open>sum(1 for r in results if not r.success and r.item.required)\<close>\<close>
  "count_failed rs = length (filter (\<lambda>r. \<not> ir_success r \<and> required (ir_item r)) rs)"

definition install_from_manifest ::
  "pyenv \<Rightarrow> installer \<Rightarrow> manifest \<Rightarrow> path \<Rightarrow> bool \<Rightarrow> bool \<Rightarrow> bool \<Rightarrow> bool \<Rightarrow> world
   \<Rightarrow> (error + report) \<times> world" where
  "install_from_manifest E self m d create_instance_dirs overwrite dry_run preserve_backups w =
     (let install_paths = from_custom d
      in case (if create_instance_dirs then ensure_dirs install_paths w else (Inr (), w)) of
           (Inl e, w1) \<Rightarrow> (Inl e, w1)
         | (Inr u, w1) \<Rightarrow>
             (case (if backup_on_failure self then make_backup d w1 else (None, w1)) of
                (backup_path, w2) \<Rightarrow>
                  (let rep = empty_report\<lparr>manifest_name := m_name m,
                                          manifest_version := m_version m,
                                          backups := (case backup_path of None \<Rightarrow> [] | Some b \<Rightarrow> [b])\<rparr>
                   in case build_plan_from_manifest (the_client self) install_paths (m_files m) w2 of
                        (Inl e, w3) \<Rightarrow> (Inl e, w3)
                      | (Inr items, w3) \<Rightarrow>
                          if dry_run
                          then (Inr (rep\<lparr>total_files := length items,
                                         results := map dry_run_result items,
                                         success := False\<rparr>), w3)
                          else
                            (case mkdir_each (target_folders items) w3 of
                               (Inl e, w4) \<Rightarrow> (Inl e, w4)
                             | (Inr u, w4) \<Rightarrow>
                                 (case run_tasks E self items w4 of
                                    (rs, w5) \<Rightarrow>
                                      (let rep1 = rep\<lparr>total_files := length items, results := rs,
                                                      successful := count_successful rs,
                                                      failed := count_failed rs,
                                                      success := (count_failed rs = 0)\<rparr>;
                                           w6 = apply_overrides m d overwrite w5;
                                           w7 = (case backup_path of
                                                   Some b \<Rightarrow> if failed rep1 > 0 then rollback d b w6 else w6
                                                 | None \<Rightarrow> w6);
                                           w8 = (case backup_path of
                                                   Some b \<Rightarrow>
                                                     if success rep1 \<and> \<not> preserve_backups
                                                     then quiet_safe_remove b w7 else w7
                                                 | None \<Rightarrow> w7)
                                       in (Inr (rep1\<lparr>success := (failed rep1 = 0)\<rparr>), w8)))))))"

section \<open>Concrete worlds\<close>

definition quiet_world :: "filesystem \<Rightarrow> http_result list \<Rightarrow> world" where
  \<comment> \<open>a world without injected errors\<close>
  "quiet_world t answers =
     \<lparr>files = t, io_error = (\<lambda>x. None), copy_error = (\<lambda>p. None), tmp_names = [''0'', ''1''], script = answers, gets = [],
      lookups = 0, slept = [], now = 0, timestamp = ''20240101T000000Z''\<rparr>"


definition short_disk :: world where
  \<comment> \<open>as \<open>busy_disk\<close>, but \<open>/d/f\<close> can be opened and the copy onto it breaks off after
      one byte\<close>
  "short_disk =
     (quiet_world [([''d''], Dir), ([''d'', ''f''], File [1])] [])
       \<lparr>io_error := (\<lambda>x. if x = (Op_replace, [''d'', ''f'']) \<or> x = (Op_rename, [''d'', ''f''])
                         then Some ''busy'' else None),
        copy_error := (\<lambda>p. if p = [''d'', ''f''] then Some (1, ''No space left on device'')
                           else None)\<rparr>"

definition answer :: "int \<Rightarrow> string \<Rightarrow> string option \<Rightarrow> bytes list \<Rightarrow> http_result" where
  \<comment> \<open>a complete answer with the given status, reason, Retry-After header and body\<close>
  "answer code why ra chunks =
     Answered \<lparr>status_code = code, reason = why, retry_after = ra, content_length = None,
               content_disposition = None, resp_url = ''http://h/a.jar'', body = chunks,
               body_error = None\<rparr>"

definition bare_client :: client where
  \<comment> \<open>a client without any of the optional methods\<close>
  "bare_client =
     \<lparr>get_mod_file = None, get_file = None, get_modfile = None, get_file_download_url = None,
      get_file_download_link = None\<rparr>"

definition url_client :: client where
  \<comment> \<open>a client that resolves every file to the same URL and offers no metadata\<close>
  "url_client = bare_client\<lparr>get_file_download_url := Some (\<lambda>pid fid. Inr (Some ''http://h/a.jar''))\<rparr>"

definition jar_item :: "hashes \<Rightarrow> install_item" where
  \<comment> \<open>a planned item \<open>a.jar\<close> of the instance \<open>/r\<close> with the given expected hashes\<close>
  "jar_item eh =
     \<lparr>project_id = 1, file_id = 2, required = True, remote_file_name = Some ''a.jar'',
      download_url = Some ''http://h/a.jar'', expected_hashes = eh,
      target_folder = Some [''r'', ''mods''], target_path = Some [''r'', ''mods'', ''a.jar''],
      size_bytes = None, metadata = None\<rparr>"

definition instance_tree :: filesystem where
  "instance_tree = [([''r''], Dir), ([''r'', ''mods''], Dir)]"

definition sample_env :: pyenv where
  \<comment> \<open>stand-ins for the library functions, for concrete runs: toy digests, a date parser
      that accepts nothing, floats printed without fraction digits\<close>
  "sample_env =
     \<lparr>sha1 = (\<lambda>b. of_nat (length b)), sha256 = (\<lambda>b. of_nat (length b)),
      md5 = (\<lambda>b. of_nat (length b)), parsedate_wait = (\<lambda>t. None),
      float_repr = (\<lambda>x. str_of_int \<lfloor>x\<rfloor> @ ''.0'')\<rparr>"

definition no_value :: "entry \<Rightarrow> string list \<Rightarrow> bool" where
  \<comment> \<open>none of the keys is present with a value other than null\<close>
  "no_value e keys = list_all (\<lambda>k. entry_get e k = JNull) keys"

definition lacks_identifier :: "entry \<Rightarrow> bool" where
  \<comment> \<open>the entry lacks a project identifier or a file identifier, under each of the three
      spellings that the planner reads\<close>
  "lacks_identifier e =
     (no_value e [''projectID'', ''projectId'', ''project'']
      \<or> no_value e [''fileID'', ''fileId'', ''file''])"

definition two_entry_manifest :: manifest where
  \<comment> \<open>a manifest whose first entry has no identifiers\<close>
  "two_entry_manifest =
     \<lparr>m_name = Some ''pack'', m_version = Some ''1'',
      m_files = [[(''required'', JBool True)], [(''projectID'', JInt 1), (''fileID'', JInt 2)]],
      m_overrides = None\<rparr>"

definition no_download :: "world \<Rightarrow> world \<Rightarrow> bool" where
  \<comment> \<open>between the two worlds no streaming GET was sent, no answer consumed, no sleep taken\<close>
  "no_download w w' = (gets w' = gets w \<and> script w' = script w \<and> slept w' = slept w)"

definition can_mkdir :: "path \<Rightarrow> world \<Rightarrow> bool" where
  \<comment> \<open>\<open>p.mkdir(parents=True, exist_ok=True)\<close> will not raise\<close>
  "can_mkdir p w = (io_error w (Op_mkdir, p) = None \<and> \<not> list_ex (is_file (files w)) (prefixes p))"

definition refusal :: "http_result \<Rightarrow> bool" where
  \<comment> \<open>the request fails: no connection, or a status from 400 on\<close>
  "refusal x = (case x of Refused m \<Rightarrow> True | Answered resp \<Rightarrow> status_code resp \<ge> 400)"

definition refusal_text :: "pyenv \<Rightarrow> http_result \<Rightarrow> string" where
  \<comment> \<open>the error that an attempt reports for a refusal\<close>
  "refusal_text E x =
     (case x of
        Refused m \<Rightarrow> m
      | Answered resp \<Rightarrow>
          if status_code resp = 416
          then ''416 Range Not Satisfiable: removed local .part; retrying fresh recommended''
          else if status_code resp = 429
          then ''429 Rate limited; retry-after='' @ float_repr E (parse_retry_after E (retry_after resp))
          else http_error_text resp)"

definition steady_manager :: download_manager where
  "steady_manager = new_download_manager 4 (3 / 5)"

definition no_new_files :: "world \<Rightarrow> world \<Rightarrow> bool" where
  \<comment> \<open>from \<open>w\<close> to \<open>w'\<close> the injected errors are the same and no file has appeared\<close>
  "no_new_files w w' =
     (io_error w' = io_error w \<and> (\<forall>q. is_file (files w') q \<longrightarrow> is_file (files w) q))"

definition unavailable :: http_result where
  "unavailable = answer 503 ''Service Unavailable'' None []"

definition failing_server :: world where
  \<comment> \<open>an empty disk and a server that answers 503 four times\<close>
  "failing_server = quiet_world [] [unavailable, unavailable, unavailable, unavailable]"

definition rate_limiting_server :: world where
  \<comment> \<open>an empty disk and a server that answers 429 with \<open>Retry-After: 2\<close>, then 200\<close>
  "rate_limiting_server =
     quiet_world [] [answer 429 ''Too Many Requests'' (Some ''2'') [],
                     answer 200 ''OK'' None [[7, 8]]]"






lemma map_of_filter_key:
  "map_of (filter (\<lambda>e. P (fst e)) t) q = (if P q then map_of t q else None)"
  by (induction t) auto

lemma node_at_remove_tree:
  "node_at (remove_tree r t) q = (if prefix r q \<and> q \<noteq> [] then None else node_at t q)"
  unfolding remove_tree_def under_def node_at_def
  by (simp add: map_of_filter_key [where P = "\<lambda>k. \<not> prefix r k"])

lemma map_of_tree_copy:
  "map_of (tree_copy src dst t) q =
     (if prefix dst q then map_of t (src @ drop (length dst) q) else None)"
proof (induction t)
  case Nil
  then show ?case by (simp add: tree_copy_def)
next
  case (Cons e t)
  obtain p n where e: "e = (p, n)" by (cases e)
  show ?case
  proof (cases "prefix src p")
    case False
    then have "src @ drop (length dst) q \<noteq> p" by auto
    with False Cons e show ?thesis by (simp add: tree_copy_def under_def)
  next
    case True
    then obtain r where r: "p = src @ r" by (auto simp: prefix_def)
    have "(dst @ r = q) = (prefix dst q \<and> src @ drop (length dst) q = p)"
      using r by (auto simp: prefix_def)
    with True Cons e r show ?thesis
      by (auto simp: tree_copy_def under_def rebase_def)
  qed
qed

lemma node_at_append:
  "node_at (xs @ ys) q = (if q = [] then Some Dir else case map_of xs q of Some n \<Rightarrow> Some n | None \<Rightarrow> map_of ys q)"
  by (simp add: node_at_def map_add_def)























section \<open>Evaluating the model on concrete worlds\<close>

lemmas fs_defs = node_at_def is_dir_def is_file_def present_def put_def add_dir_def
  remove_tree_def under_def rebase_def tree_copy_def parent_def name_of_def tmp_file_def
  has_children_def

lemmas os_defs = mkdir_parents_def open_file_def file_write_def rename_def os_replace_def
  os_rename_def copy2_def read_bytes_def shutil_move_def unlink_def rmtree_def copytree_def
  mkstemp_def quiet_unlink_def unlink_then_move_def write_payload_def


lemma short_disk_run:
  "atomic_write [''d'', ''f''] (Some [2, 3]) None None short_disk =
     (Inl (atomic_write_failed [''d'', ''f'']
             (DownloadError ''Failed to move temp file to destination: No space left on device'')),
      short_disk\<lparr>files := [([''d''], Dir), ([''d'', ''f''], File [2])], tmp_names := [''1'']\<rparr>)"
  by (simp add: atomic_write_def short_disk_def quiet_world_def fs_defs os_defs Let_def)

section \<open>C7: a failing atomic\_write and the destination\<close>


text \<open>
  On \<open>short_disk\<close> the copy of the fallback breaks off after one byte: the call fails and
  \<open>/d/f\<close> holds the first byte of the new content.
\<close>

lemma atomic_write_leaves_partial_copy:
  "isl (fst (atomic_write [''d'', ''f''] (Some [2, 3]) None None short_disk))
   \<and> node_at (files short_disk) [''d'', ''f''] = Some (File [1])
   \<and> node_at (files (snd (atomic_write [''d'', ''f''] (Some [2, 3]) None None short_disk)))
        [''d'', ''f''] = Some (File [2])"
  by (simp add: short_disk_run) (simp add: short_disk_def quiet_world_def fs_defs)



section \<open>C6: is\_same\_file\<close>

lemma length_hexdigest: "length (hexdigest (x :: 'a::len word)) = LENGTH('a) div 4"
  by (simp add: hexdigest_def)

lemma length_lower: "length (lower s) = length s"
  by (simp add: lower_def)

lemma hexdigest_sha1_not_short: "lower (hexdigest (x :: 160 word)) \<noteq> lower ''00''"
proof
  assume "lower (hexdigest x) = lower ''00''"
  then have "length (lower (hexdigest x)) = length (lower ''00'')" by simp
  then show False by (simp add: length_lower length_hexdigest)
qed

lemma hexdigest_not_empty: "hexdigest (x :: 160 word) \<noteq> []"
proof
  assume "hexdigest x = []"
  then have "length (hexdigest x) = 0" by simp
  then show False by (simp add: length_hexdigest)
qed

lemma is_same_file_missing:
  "\<not> present (files w) p \<Longrightarrow> is_same_file E w p eh = Inl (file_not_found p)"
  by (simp add: is_same_file_def)

lemma is_same_file_no_expectation:
  "present (files w) p \<Longrightarrow> eh = None \<or> eh = Some [] \<Longrightarrow> \<exists>c. is_same_file E w p eh = Inr (False, c)"
  by (auto simp: is_same_file_def Let_def)

text \<open>
  C6 says that \<open>is_same_file\<close> answers \<open>matches = true\<close> exactly when at least one entry
  of \<open>expected_hashes\<close> equals, without regard to case, the computed digest of the same
  algorithm. The code lowers the keys into a new dict, where a later key that differs
  only in case takes the place of an earlier one. For a file \<open>/d/f\<close> and the expectation
  \<open>{"sha1": <its SHA-1>, "SHA1": "00"}\<close> the first entry equals the computed digest, and
  the code answers \<open>matches = false\<close>, whatever the digest functions are.
\<close>

theorem is_same_file_shadowed_entry:
  "is_same_file E (quiet_world [([''d''], Dir), ([''d'', ''f''], File [1])] []) [''d'', ''f'']
     (Some [(''sha1'', hexdigest (sha1 E [1])), (''SHA1'', ''00'')])
   = Inr (False, [(''sha1'', hexdigest (sha1 E [1])), (''sha256'', hexdigest (sha256 E [1])),
                  (''md5'', hexdigest (md5 E [1]))])"
proof -
  have l: "lower ''SHA1'' = ''sha1''" "lower ''sha1'' = ''sha1''" "lower ''00'' = ''00''"
    by code_simp+
  have n: "norm_expected [(''sha1'', hexdigest (sha1 E [1])), (''SHA1'', ''00'')] = [(''sha1'', ''00'')]"
    by (simp add: norm_expected_def hexdigest_not_empty l)
  have m: "\<not> digest_matches [(''sha1'', hexdigest (sha1 E [1])), (''sha256'', hexdigest (sha256 E [1])),
                  (''md5'', hexdigest (md5 E [1]))] (''sha1'', ''00'')"
    using hexdigest_sha1_not_short [of "sha1 E [1]"] by (simp add: digest_matches_def)
  show ?thesis
    by (simp add: is_same_file_def sha1_sum_def sha256_sum_def md5_sum_def read_bytes_def
        or_empty_def quiet_world_def fs_defs n m)
qed

section \<open>C1: the per-item task on a 2xx answer\<close>

lemma atomic_write_without_payload: "isl (fst (atomic_write dest None None sfx w))"
  by (simp add: atomic_write_def split: prod.splits sum.splits)

lemma write_stream_to_tempfile_raises:
  "isl (fst (write_stream_to_tempfile resp dest resume w))"
proof -
  have aw: "atomic_write dest None None None w3 \<noteq> (Inr p, w4)" for w3 p w4
  proof
    assume "atomic_write dest None None None w3 = (Inr p, w4)"
    with atomic_write_without_payload [of dest None w3] show False by simp
  qed
  show ?thesis
    unfolding write_stream_to_tempfile_def Let_def
    using aw by (auto split: prod.splits sum.splits option.splits)
qed

lemma write_stream_to_tempfile_never_returns:
  "write_stream_to_tempfile resp dest resume w \<noteq> (Inr p, w')"
  using write_stream_to_tempfile_raises [of resp dest resume w] by auto

lemma failing_keeps_failure: "ts_success (failing st e) = ts_success st"
  by (simp add: failing_def)

lemma stream_and_verify_fails:
  "\<not> ts_success st \<Longrightarrow> \<not> ts_success (fst (stream_and_verify E st resp w))"
  unfolding stream_and_verify_def Let_def
  using write_stream_to_tempfile_never_returns
  by (auto simp: failing_keeps_failure split: prod.splits sum.splits option.splits)

lemma task_attempt_fails:
  "\<not> ts_success st \<Longrightarrow> \<not> ts_success (fst (task_attempt E self attempt st w))"
  unfolding task_attempt_def Let_def
  using stream_and_verify_fails [of "st\<lparr>ts_attempts := attempt, ts_item := it\<rparr>" for it]
  by (auto simp: failing_keeps_failure split: prod.splits sum.splits option.splits)

lemma task_loop_fails:
  "\<not> ts_success st \<Longrightarrow> task_loop E self attempt st w = (Inr st', w') \<Longrightarrow> \<not> ts_success st'"
proof (induction E self attempt st w rule: task_loop.induct)
  case (1 E self attempt st w)
  show ?case
  proof (cases "attempt \<le> max_retries self")
    case False
    with "1.prems" show ?thesis by (simp add: task_loop.simps [of E self attempt st w])
  next
    case True
    obtain st1 w1 where ta: "task_attempt E self attempt st w = (st1, w1)"
      by (cases "task_attempt E self attempt st w")
    have f1: "\<not> ts_success st1"
      using task_attempt_fails [OF "1.prems"(1), of E self attempt w] ta by simp
    show ?thesis
    proof (cases "attempt < max_retries self")
      case False
      with True ta f1 "1.prems"(2) show ?thesis
        by (simp add: task_loop.simps [of E self attempt st w])
    next
      case lt: True
      show ?thesis
      proof (cases "exponential_backoff attempt (backoff_base self)")
        case (Inl e)
        with True ta f1 lt "1.prems"(2) show ?thesis
          by (simp add: task_loop.simps [of E self attempt st w])
      next
        case (Inr wait)
        with True ta f1 lt "1.prems"(2)
        have "task_loop E self (attempt + 1) st1 (sleep wait w1) = (Inr st', w')"
          by (simp add: task_loop.simps [of E self attempt st w])
        from "1.IH" [OF True ta [symmetric] f1 lt Inr f1 this] show ?thesis .
      qed
    qed
  qed
qed


lemma download_task_success_is_skip:
  assumes "download_task E self it w = (Inr r, w')" "ir_success r"
  shows "already_installed E it w = Some r \<and> w' = w"
proof (cases "already_installed E it w")
  case (Some r0)
  with assms show ?thesis by (simp add: download_task_def)
next
  case None
  let ?st = "\<lparr>ts_item = it, ts_attempts = 0, ts_last_err = None, ts_downloaded_bytes = 0,
              ts_success = False, ts_checksum_ok = None, ts_final_path = target_path it\<rparr>"
  obtain res w1 where tl: "task_loop E self 1 ?st w = (res, w1)"
    by (cases "task_loop E self 1 ?st w")
  show ?thesis
  proof (cases res)
    case (Inl x)
    with None tl assms(1) show ?thesis by (simp add: download_task_def)
  next
    case (Inr st)
    have ns: "\<not> ts_success ?st" by simp
    from tl Inr have "task_loop E self 1 ?st w = (Inr st, w1)" by simp
    from task_loop_fails [OF ns this] have "\<not> ts_success st" .
    moreover from None tl Inr assms(1) have "ir_success r = ts_success st"
      by (auto simp: download_task_def)
    ultimately show ?thesis using assms(2) by simp
  qed
qed

lemmas task_defs = download_task_def already_installed_def task_attempt_def resolve_url_def
  requests_get_def stream_and_verify_def name_from_response_def dest_path_of_def
  write_stream_to_tempfile_def temp_part_path_def iter_content_to_def atomic_write_def
  stream_failed_def is_download_error_def failing_def exponential_backoff_def sleep_def
  new_installer_def jar_item_def quiet_world_def instance_tree_def answer_def truthy_def
  str_of_path_def http_error_text_def



text \<open>
  C1 says that on a 2xx answer the per-item task streams the body to the \<open>.part\<close> file,
  promotes it onto the target path and, on a successful result, leaves the complete file
  there. In the code \<open>write_stream_to_tempfile\<close> calls
  \<open>atomic_write(dest, chunks=None, data=None)\<close> before the promotion, which raises
  \<open>ValueError\<close> inside the \<open>try\<close>; the function therefore never returns and every
  attempt fails. For the item \<open>a.jar\<close>, a budget of two attempts and a server that answers
  200 with the body \<open>[7, 8]\<close> both times, the task reports failure after two attempts, the
  target path is absent and the \<open>.part\<close> file holds the body twice (the second attempt
  appends). The error of the result is the text of the \<open>DownloadError\<close> that wraps the
  \<open>ValueError\<close>. Lemma \<open>download_task_success_is_skip\<close> shows for every input that a task
  which succeeds has downloaded nothing.
\<close>

theorem download_task_never_promotes:
  "(case download_task E (new_installer bare_client 4 2 (3 / 5) True) (jar_item [])
           (quiet_world instance_tree [answer 200 ''OK'' None [[7, 8]],
                                       answer 200 ''OK'' None [[7, 8]]]) of
      (Inr r, w') \<Rightarrow>
        \<not> ir_success r \<and> ir_attempts r = 2
        \<and> ir_error r = Some (''[CurseForgeError] Failed writing stream to temp file ''
                              @ ''/r/mods/a.jar.part: Provide exactly one of `data` or `chunks`.'')
        \<and> node_at (files w') [''r'', ''mods'', ''a.jar''] = None
        \<and> node_at (files w') [''r'', ''mods'', ''a.jar.part''] = Some (File [7, 8, 7, 8])
        \<and> gets w' = [''http://h/a.jar'', ''http://h/a.jar'']
    | (Inl x, w') \<Rightarrow> False)"
  by (simp add: task_defs task_loop.simps fs_defs os_defs)

section \<open>C9: an item that is already installed\<close>

lemma lower_char_idem: "lower_char (lower_char c) = lower_char c"
  by (auto simp: lower_char_def Let_def)

lemma lower_idem: "lower (lower s) = lower s"
  by (simp add: lower_def lower_char_idem)

lemma computed_has_no_size:
  "is_same_file E w p eh = Inr (b, c) \<Longrightarrow> size_entry c = 0"
  by (auto simp: is_same_file_def Let_def size_entry_def split: if_splits option.splits)

lemma skip_when_same_file:
  assumes "target_path it = Some p" "present (files w) p" "expected_hashes it \<noteq> []"
    and "is_same_file E w p (Some (expected_hashes it)) = Inr (True, c)"
  shows "download_task E self it w =
           (Inr \<lparr>ir_item = it, ir_success = True, ir_path = Some p, ir_downloaded_bytes = 0,
                 ir_attempts = 0, ir_error = None, ir_checksum_ok = Some True\<rparr>, w)"
  using assms computed_has_no_size [OF assms(4)]
  by (simp add: download_task_def already_installed_def)

lemma shadowed_item_not_recognised:
  "already_installed E (jar_item [(''sha1'', hexdigest (sha1 E [7, 8])), (''SHA1'', ''00'')])
     (quiet_world (instance_tree @ [([''r'', ''mods'', ''a.jar''], File [7, 8])]) answers) = None"
proof -
  have l: "lower ''SHA1'' = ''sha1''" "lower ''sha1'' = ''sha1''" "lower ''00'' = ''00''"
    by code_simp+
  have n: "norm_expected [(''sha1'', hexdigest (sha1 E [7, 8])), (''SHA1'', ''00'')]
             = [(''sha1'', ''00'')]"
    by (simp add: norm_expected_def hexdigest_not_empty l)
  have m: "\<not> digest_matches [(''sha1'', hexdigest (sha1 E [7, 8])),
                  (''sha256'', hexdigest (sha256 E [7, 8])),
                  (''md5'', hexdigest (md5 E [7, 8]))] (''sha1'', ''00'')"
    using hexdigest_sha1_not_short [of "sha1 E [7, 8]"] by (simp add: digest_matches_def)
  show ?thesis
    by (simp add: already_installed_def jar_item_def is_same_file_def sha1_sum_def
        sha256_sum_def md5_sum_def read_bytes_def or_empty_def quiet_world_def
        instance_tree_def fs_defs n m)
qed

lemma shadowed_item_task_loop:
  "task_loop E (new_installer bare_client 4 1 (3 / 5) True) 1
     \<lparr>ts_item = jar_item eh, ts_attempts = 0, ts_last_err = None, ts_downloaded_bytes = 0,
      ts_success = False, ts_checksum_ok = None, ts_final_path = target_path (jar_item eh)\<rparr>
     (quiet_world (instance_tree @ [([''r'', ''mods'', ''a.jar''], File [7, 8])])
        [answer 200 ''OK'' None [[7, 8]]])
   = (Inr \<lparr>ts_item = jar_item eh, ts_attempts = 1,
           ts_last_err = Some (''[CurseForgeError] Failed writing stream to temp file ''
                              @ ''/r/mods/a.jar.part: Provide exactly one of `data` or `chunks`.''),
           ts_downloaded_bytes = 0, ts_success = False, ts_checksum_ok = None,
           ts_final_path = Some [''r'', ''mods'', ''a.jar'']\<rparr>,
      (quiet_world (instance_tree @ [([''r'', ''mods'', ''a.jar''], File [7, 8]),
                                      ([''r'', ''mods'', ''a.jar.part''], File [7, 8])]) [])
        \<lparr>gets := [''http://h/a.jar'']\<rparr>)"
  by (simp add: task_defs task_loop.simps fs_defs os_defs)

text \<open>
  C9 says that an item whose target file exists and matches at least one of its expected
  hashes is recorded as a success with \<open>attempts = 0\<close> and \<open>downloaded_bytes = 0\<close>,
  without a network call. The task leaves the decision to \<open>is_same_file\<close>, which loses an
  entry when two keys differ only in case (the defect of C6). For the item \<open>a.jar\<close> with
  the expectation \<open>{"sha1": <SHA-1 of the file>, "SHA1": "00"}\<close>, whose file is in place
  with exactly that SHA-1, and a budget of one attempt, the task sends a GET, counts one
  attempt and, the promotion being broken (C1), reports a failure; the file is still in
  place. This holds whatever the digest functions are.
\<close>

theorem shadowed_hash_is_fetched_again:
  "sha1_sum E (quiet_world (instance_tree @ [([''r'', ''mods'', ''a.jar''], File [7, 8])])
                 [answer 200 ''OK'' None [[7, 8]]]) [''r'', ''mods'', ''a.jar'']
     = Inr (hexdigest (sha1 E [7, 8]))
   \<and> (case download_task E (new_installer bare_client 4 1 (3 / 5) True)
             (jar_item [(''sha1'', hexdigest (sha1 E [7, 8])), (''SHA1'', ''00'')])
             (quiet_world (instance_tree @ [([''r'', ''mods'', ''a.jar''], File [7, 8])])
                [answer 200 ''OK'' None [[7, 8]]]) of
        (Inr r, w') \<Rightarrow>
          \<not> ir_success r \<and> ir_attempts r = 1 \<and> gets w' = [''http://h/a.jar'']
          \<and> node_at (files w') [''r'', ''mods'', ''a.jar''] = Some (File [7, 8])
      | (Inl x, w') \<Rightarrow> False)"
proof -
  have "sha1_sum E (quiet_world (instance_tree @ [([''r'', ''mods'', ''a.jar''], File [7, 8])])
                 [answer 200 ''OK'' None [[7, 8]]]) [''r'', ''mods'', ''a.jar'']
     = Inr (hexdigest (sha1 E [7, 8]))"
    by (simp add: sha1_sum_def read_bytes_def quiet_world_def instance_tree_def fs_defs)
  moreover have "node_at (instance_tree @ [([''r'', ''mods'', ''a.jar''], File [7, 8]),
                                      ([''r'', ''mods'', ''a.jar.part''], File [7, 8])])
                   [''r'', ''mods'', ''a.jar''] = Some (File [7, 8])"
    by (simp add: instance_tree_def fs_defs)
  moreover have "download_task E (new_installer bare_client 4 1 (3 / 5) True)
             (jar_item [(''sha1'', hexdigest (sha1 E [7, 8])), (''SHA1'', ''00'')])
             (quiet_world (instance_tree @ [([''r'', ''mods'', ''a.jar''], File [7, 8])])
                [answer 200 ''OK'' None [[7, 8]]])
     = (Inr \<lparr>ir_item = jar_item [(''sha1'', hexdigest (sha1 E [7, 8])), (''SHA1'', ''00'')],
             ir_success = False, ir_path = Some [''r'', ''mods'', ''a.jar''],
             ir_downloaded_bytes = 0, ir_attempts = 1,
             ir_error = Some (''[CurseForgeError] Failed writing stream to temp file ''
                              @ ''/r/mods/a.jar.part: Provide exactly one of `data` or `chunks`.''),
             ir_checksum_ok = None\<rparr>,
        (quiet_world (instance_tree @ [([''r'', ''mods'', ''a.jar''], File [7, 8]),
                                        ([''r'', ''mods'', ''a.jar.part''], File [7, 8])]) [])
          \<lparr>gets := [''http://h/a.jar'']\<rparr>)"
    by (simp only: download_task_def shadowed_item_not_recognised shadowed_item_task_loop
        option.case prod.case sum.case)
      (simp add: jar_item_def)
  ultimately show ?thesis by (simp add: quiet_world_def)
qed

section \<open>C10: entries without identifiers\<close>

lemma plan_entry_skips: "lacks_identifier e \<Longrightarrow> plan_entry c ip e w = (Inr None, w)"
  by (auto simp: lacks_identifier_def no_value_def plan_entry_def jor_def jtruthy_def Let_def)

lemma build_plan_skips_one:
  "lacks_identifier e \<Longrightarrow>
   build_plan_from_manifest c ip (e # es) w = build_plan_from_manifest c ip es w"
  by (simp add: plan_entry_skips split: prod.splits sum.splits)

lemma build_plan_filter:
  "build_plan_from_manifest c ip es w =
   build_plan_from_manifest c ip (filter (\<lambda>e. \<not> lacks_identifier e) es) w"
proof (induction es arbitrary: w)
  case Nil
  show ?case by simp
next
  case (Cons e es)
  show ?case
  proof (cases "lacks_identifier e")
    case True
    then show ?thesis using Cons.IH [of w] by (simp only: build_plan_skips_one filter.simps if_False not_True_eq_False)
  next
    case False
    then show ?thesis using Cons.IH by (simp split: prod.splits sum.splits)
  qed
qed

lemmas plan_defs = install_from_manifest_def from_custom_def ensure_dirs_def make_backup_def
  backup_root_of_def backup_dest_of_def empty_report_def plan_entry_def entry_get_def jor_def
  jtruthy_def py_int_def fetch_metadata_def metadata_method_def fetch_url_def url_method_def
  new_item_def with_metadata_def with_target_def url_basename_def rstrip_char_def join_def
  components_def basename_def dry_run_result_def bare_client_def url_client_def

lemma two_entry_dry_run:
  "install_from_manifest E (new_installer url_client 4 3 (3 / 5) True) two_entry_manifest [''r'']
     True True True True (quiet_world [] []) =
   (Inr \<lparr>manifest_name = Some ''pack'', manifest_version = Some ''1'', total_files = 1,
          successful = 0, failed = 0, results = [dry_run_result (jar_item [])],
          backups = [[''r-backups'', ''r-20240101T000000Z'']], success = False\<rparr>,
    (quiet_world
       [([''r-backups'', ''r-20240101T000000Z''], Dir),
        ([''r-backups'', ''r-20240101T000000Z'', ''mods''], Dir),
        ([''r-backups'', ''r-20240101T000000Z'', ''resourcepacks''], Dir),
        ([''r-backups'', ''r-20240101T000000Z'', ''shaderpacks''], Dir),
        ([''r-backups'', ''r-20240101T000000Z'', ''config''], Dir),
        ([''r-backups'', ''r-20240101T000000Z'', ''overrides''], Dir),
        ([''r-backups'', ''r-20240101T000000Z'', ''saves''], Dir),
        ([''r-backups'', ''r-20240101T000000Z'', ''logs''], Dir),
        ([''r''], Dir), ([''r'', ''mods''], Dir), ([''r'', ''resourcepacks''], Dir),
        ([''r'', ''shaderpacks''], Dir), ([''r'', ''config''], Dir), ([''r'', ''overrides''], Dir),
        ([''r'', ''saves''], Dir), ([''r'', ''logs''], Dir), ([''r-backups''], Dir)] [])
      \<lparr>lookups := 1\<rparr>)"
  by (simp add: plan_defs two_entry_manifest_def new_installer_def quiet_world_def truthy_def
      jar_item_def fs_defs os_defs)

text \<open>
  C10: \<open>build_plan_from_manifest\<close> skips every entry that lacks a project identifier or a
  file identifier: the plan, the error if one is raised, and the calls to the client are
  those of the list without these entries, so no error and no placeholder comes from them.
  The plan can therefore be shorter than the \<open>files\<close> list: for a manifest of two entries
  whose first has no identifiers, \<open>report.total_files\<close> is 1.
\<close>

theorem plan_skips_entries_without_identifiers:
  "build_plan_from_manifest c ip es w =
     build_plan_from_manifest c ip (filter (\<lambda>e. \<not> lacks_identifier e) es) w
   \<and> length (m_files two_entry_manifest) = 2
   \<and> map_sum id total_files
        (fst (install_from_manifest E (new_installer url_client 4 3 (3 / 5) True)
                two_entry_manifest [''r''] True True True True (quiet_world [] []))) = Inr 1"
  using build_plan_filter [of c ip es w]
  by (simp add: two_entry_dry_run) (simp add: two_entry_manifest_def)

section \<open>C4: the dry run\<close>

text \<open>
  C4 says that a dry run produces one placeholder per planned item, ends with
  \<open>success = false\<close>, performs no network call and does not modify the file system: no
  directory is created, no backup copied, no file written. The docstring of
  \<open>install_from_manifest\<close> says the same of \<open>dry_run\<close> (no downloads/writes), but the
  standard directories and the backup are made before the flag is read. On an empty disk
  the dry run of \<open>two_entry_manifest\<close> into \<open>/r\<close>, with the defaults
  \<open>create_instance_dirs = True\<close> and \<open>backup_on_failure = True\<close>, returns the placeholder
  report and sends no GET, yet it has created \<open>/r\<close> with its standard directories and
  copied the instance to \<open>/r-backups/r-20240101T000000Z\<close>. The plan was built through
  one call to the API client.
\<close>

theorem dry_run_writes_to_disk:
  "files (quiet_world [] []) = []
   \<and> (case install_from_manifest E (new_installer url_client 4 3 (3 / 5) True)
             two_entry_manifest [''r''] True True True True (quiet_world [] []) of
        (Inr rep, w') \<Rightarrow>
          results rep = [dry_run_result (jar_item [])] \<and> total_files rep = 1 \<and> \<not> success rep
          \<and> gets w' = [] \<and> lookups w' = 1
          \<and> node_at (files w') [''r''] = Some Dir
          \<and> node_at (files w') [''r'', ''mods''] = Some Dir
          \<and> node_at (files w') [''r-backups'', ''r-20240101T000000Z''] = Some Dir
          \<and> node_at (files w') [''r-backups'', ''r-20240101T000000Z'', ''mods''] = Some Dir
          \<and> length (files w') = 17
      | (Inl e, w') \<Rightarrow> False)"
  by (simp add: two_entry_dry_run) (simp add: quiet_world_def fs_defs)

lemma mkdir_parents_quiet: "mkdir_parents p w = (r, w') \<Longrightarrow> no_download w w' \<and> lookups w' = lookups w"
  by (auto simp: mkdir_parents_def no_download_def split: option.splits if_splits)

lemma no_download_trans: "no_download w w1 \<Longrightarrow> no_download w1 w2 \<Longrightarrow> no_download w w2"
  by (simp add: no_download_def)

lemma no_download_refl: "no_download w w"
  by (simp add: no_download_def)

lemma mkdir_each_quiet: "mkdir_each ps w = (r, w') \<Longrightarrow> no_download w w' \<and> lookups w' = lookups w"
proof (induction ps arbitrary: w)
  case Nil
  then show ?case by (simp add: no_download_refl)
next
  case (Cons p ps)
  obtain r1 w1 where mk: "mkdir_parents p w = (r1, w1)" by (cases "mkdir_parents p w")
  note q = mkdir_parents_quiet [OF mk]
  show ?case
  proof (cases r1)
    case (Inl e)
    with Cons.prems mk q show ?thesis by simp
  next
    case (Inr u)
    with Cons.prems mk have "mkdir_each ps w1 = (r, w')" by simp
    from Cons.IH [OF this] q show ?thesis by (auto intro: no_download_trans)
  qed
qed

lemma copytree_quiet: "copytree src dst w = (r, w') \<Longrightarrow> no_download w w' \<and> lookups w' = lookups w"
  by (auto simp: copytree_def no_download_def Let_def split: option.splits if_splits)

lemma make_backup_quiet: "make_backup d w = (b, w') \<Longrightarrow> no_download w w' \<and> lookups w' = lookups w"
proof -
  assume a: "make_backup d w = (b, w')"
  obtain r1 w1 where mk: "mkdir_parents (backup_root_of d) w = (r1, w1)"
    by (cases "mkdir_parents (backup_root_of d) w")
  note q = mkdir_parents_quiet [OF mk]
  show ?thesis
  proof (cases r1)
    case (Inl e)
    with a mk q show ?thesis by (simp add: make_backup_def)
  next
    case (Inr u)
    obtain r2 w2 where ct: "copytree d (backup_dest_of d (timestamp w1)) w1 = (r2, w2)"
      by (cases "copytree d (backup_dest_of d (timestamp w1)) w1")
    from a mk Inr ct have "w' = w2" by (cases r2) (simp_all add: make_backup_def)
    with copytree_quiet [OF ct] q show ?thesis by (auto intro: no_download_trans)
  qed
qed

lemma plan_entry_quiet: "plan_entry c ip e w = (r, w') \<Longrightarrow> no_download w w'"
  by (auto simp: plan_entry_def fetch_metadata_def fetch_url_def no_download_def Let_def
      split: if_splits sum.splits option.splits prod.splits)

lemma build_plan_quiet: "build_plan_from_manifest c ip es w = (r, w') \<Longrightarrow> no_download w w'"
proof (induction es arbitrary: w r)
  case Nil
  then show ?case by (simp add: no_download_refl)
next
  case (Cons e es)
  obtain r1 w1 where pe: "plan_entry c ip e w = (r1, w1)" by (cases "plan_entry c ip e w")
  note q = plan_entry_quiet [OF pe]
  show ?case
  proof (cases r1)
    case (Inl x)
    with Cons.prems pe q show ?thesis by simp
  next
    case (Inr io)
    obtain r2 w2 where bp: "build_plan_from_manifest c ip es w1 = (r2, w2)"
      by (cases "build_plan_from_manifest c ip es w1")
    from Cons.prems pe Inr bp have "w2 = w'" by (cases r2) simp_all
    with bp have "build_plan_from_manifest c ip es w1 = (r2, w')" by simp
    from Cons.IH [OF this] q show ?thesis by (auto intro: no_download_trans)
  qed
qed

text \<open>
  What a dry run does keep to, for every input: the report holds exactly one placeholder
  result for every item of the plan, in plan order, and no streaming GET is sent, no answer
  consumed and no sleep taken.
\<close>

lemma ensure_dirs_quiet: "ensure_dirs ip w = (r, w') \<Longrightarrow> no_download w w' \<and> lookups w' = lookups w"
  unfolding ensure_dirs_def by (rule mkdir_each_quiet)

lemma dry_run_report:
  assumes run: "install_from_manifest E self m d create_dirs overwrite True preserve w = (Inr rep, w')"
  shows "(\<exists>items w0. build_plan_from_manifest (the_client self) (from_custom d) (m_files m) w0
                        = (Inr items, w')
                     \<and> results rep = map dry_run_result items
                     \<and> total_files rep = length items)
         \<and> \<not> success rep \<and> no_download w w'"
proof -
  obtain r1 w1 where e: "(if create_dirs then ensure_dirs (from_custom d) w else (Inr (), w)) = (r1, w1)"
    by (cases "if create_dirs then ensure_dirs (from_custom d) w else (Inr (), w)")
  have q1: "no_download w w1"
  proof (cases create_dirs)
    case True
    with e have "ensure_dirs (from_custom d) w = (r1, w1)" by simp
    from ensure_dirs_quiet [OF this] show ?thesis by simp
  next
    case False
    with e show ?thesis by (simp add: no_download_refl)
  qed
  obtain u1 where r1: "r1 = Inr u1"
    using run e by (cases r1) (auto simp: install_from_manifest_def Let_def)
  obtain b w2 where mb: "(if backup_on_failure self then make_backup d w1 else (None, w1)) = (b, w2)"
    by (cases "if backup_on_failure self then make_backup d w1 else (None, w1)")
  have q2: "no_download w1 w2"
  proof (cases "backup_on_failure self")
    case True
    with mb have "make_backup d w1 = (b, w2)" by simp
    from make_backup_quiet [OF this] show ?thesis by simp
  next
    case False
    with mb show ?thesis by (simp add: no_download_refl)
  qed
  obtain r3 w3 where bp: "build_plan_from_manifest (the_client self) (from_custom d) (m_files m) w2 = (r3, w3)"
    by (cases "build_plan_from_manifest (the_client self) (from_custom d) (m_files m) w2")
  have q3: "no_download w2 w3" using build_plan_quiet [OF bp] .
  obtain items where r3: "r3 = Inr items"
    using run e r1 mb bp by (cases r3) (auto simp: install_from_manifest_def Let_def)
  from run e r1 mb bp r3
  have rep: "results rep = map dry_run_result items" "total_files rep = length items"
    "\<not> success rep" "w' = w3"
    by (auto simp: install_from_manifest_def Let_def)
  from q1 q2 q3 have "no_download w w3" by (blast intro: no_download_trans)
  with rep bp r3 show ?thesis by auto
qed

lemma dry_run_report_example:
  "isl (fst (install_from_manifest sample_env (new_installer url_client 4 3 (3 / 5) True)
               two_entry_manifest [''r''] True True True True (quiet_world [] []))) = False
   \<and> map_sum id success
        (fst (install_from_manifest sample_env (new_installer url_client 4 3 (3 / 5) True)
                two_entry_manifest [''r''] True True True True (quiet_world [] []))) = Inr False
   \<and> no_download (quiet_world [] [])
        (snd (install_from_manifest sample_env (new_installer url_client 4 3 (3 / 5) True)
                two_entry_manifest [''r''] True True True True (quiet_world [] [])))"
  using dry_run_report [OF two_entry_dry_run [of sample_env]]
  by (simp add: two_entry_dry_run)

section \<open>C3: the invariant of the report\<close>

lemma run_tasks_length: "run_tasks E self its w = (rs, w') \<Longrightarrow> length rs = length its"
proof (induction its arbitrary: w rs)
  case Nil
  then show ?case by simp
next
  case (Cons it its)
  obtain r1 w1 where dt: "download_task E self it w = (r1, w1)"
    by (cases "download_task E self it w")
  obtain rs2 w2 where rt: "run_tasks E self its w1 = (rs2, w2)"
    by (cases "run_tasks E self its w1")
  from Cons.prems dt rt have "length rs = Suc (length rs2)"
    by (cases r1) (auto split: prod.splits)
  moreover from rt have "run_tasks E self its w1 = (rs2, w2)" .
  then have "length rs2 = length its"
  proof -
    from Cons.prems dt rt have "w2 = w'" by (cases r1) (auto split: prod.splits)
    with rt have "run_tasks E self its w1 = (rs2, w')" by simp
    from Cons.IH [OF this] show ?thesis .
  qed
  ultimately show ?case by simp
qed

lemma counts_within_results: "count_successful rs + count_failed rs \<le> length rs"
  by (induction rs) (auto simp: count_successful_def count_failed_def)

text \<open>
  C3 as stated: in every report that \<open>install_from_manifest\<close> returns, a dry-run report
  included, \<open>success\<close> holds exactly when \<open>failed = 0\<close>, and
  \<open>successful + failed \<le> total_files\<close>.

  The dry run ends with \<open>report.success = False\<close> by an explicit assignment, while the
  counters keep their initial value 0: the dry-run report of \<open>two_entry_manifest\<close> has
  \<open>success = false\<close> and \<open>failed = 0\<close>.
\<close>

theorem dry_run_report_fails_with_no_failure:
  "map_sum id (\<lambda>rep. (success rep, failed rep))
     (fst (install_from_manifest sample_env (new_installer url_client 4 3 (3 / 5) True)
             two_entry_manifest [''r''] True True True True (quiet_world [] []))) = Inr (False, 0)"
  by (simp add: two_entry_dry_run)

text \<open>
  C3 as amended: in every report returned by a run that is not a dry run, \<open>success\<close> holds
  exactly when \<open>failed = 0\<close>; a dry-run report has \<open>success = false\<close> with \<open>failed = 0\<close>
  and \<open>successful = 0\<close>; and in every report \<open>successful + failed \<le> total_files\<close>.
\<close>

theorem report_invariant:
  assumes run: "install_from_manifest E self m d create_dirs overwrite dry_run preserve w = (Inr rep, w')"
  shows "(if dry_run then \<not> success rep \<and> failed rep = 0 \<and> successful rep = 0
          else success rep = (failed rep = 0))
         \<and> successful rep + failed rep \<le> total_files rep"
proof -
  obtain r1 w1 where e: "(if create_dirs then ensure_dirs (from_custom d) w else (Inr (), w)) = (r1, w1)"
    by (cases "if create_dirs then ensure_dirs (from_custom d) w else (Inr (), w)")
  obtain u1 where r1: "r1 = Inr u1"
    using run e by (cases r1) (auto simp: install_from_manifest_def Let_def)
  obtain b w2 where mb: "(if backup_on_failure self then make_backup d w1 else (None, w1)) = (b, w2)"
    by (cases "if backup_on_failure self then make_backup d w1 else (None, w1)")
  obtain r3 w3 where bp: "build_plan_from_manifest (the_client self) (from_custom d) (m_files m) w2 = (r3, w3)"
    by (cases "build_plan_from_manifest (the_client self) (from_custom d) (m_files m) w2")
  obtain items where r3: "r3 = Inr items"
    using run e r1 mb bp by (cases r3) (auto simp: install_from_manifest_def Let_def)
  show ?thesis
  proof (cases dry_run)
    case True
    with run e r1 mb bp r3 show ?thesis
      by (auto simp: install_from_manifest_def Let_def empty_report_def)
  next
    case False
    obtain r4 w4 where mk: "mkdir_each (target_folders items) w3 = (r4, w4)"
      by (cases "mkdir_each (target_folders items) w3")
    obtain u4 where r4: "r4 = Inr u4"
      using run e r1 mb bp r3 False mk by (cases r4) (auto simp: install_from_manifest_def Let_def)
    obtain rs w5 where rt: "run_tasks E self items w4 = (rs, w5)"
      by (cases "run_tasks E self items w4")
    from run e r1 mb bp r3 False mk r4 rt
    have rep: "successful rep = count_successful rs" "failed rep = count_failed rs"
      "total_files rep = length items" "success rep = (count_failed rs = 0)"
      by (auto simp: install_from_manifest_def Let_def)
    from run_tasks_length [OF rt] counts_within_results [of rs] rep False
    show ?thesis by simp
  qed
qed

lemmas run_defs = run_tasks.simps crashed_result_def target_folders_def apply_overrides_def
  rollback_def safe_remove_def safe_remove_from.simps remove_once_def count_successful_def
  count_failed_def quiet_safe_remove_def Let_def

lemma failing_run:
  "install_from_manifest E (new_installer url_client 4 2 (3 / 5) True) two_entry_manifest [''r'']
     True True False True
     (quiet_world [([''r''], Dir), ([''r'', ''old''], File [1])]
        [answer 200 ''OK'' None [[7, 8]], answer 200 ''OK'' None [[7, 8]]]) =
   (Inr \<lparr>manifest_name = Some ''pack'', manifest_version = Some ''1'', total_files = 1,
          successful = 0, failed = 1,
          results = [\<lparr>ir_item = jar_item [], ir_success = False,
                      ir_path = Some [''r'', ''mods'', ''a.jar''], ir_downloaded_bytes = 0,
                      ir_attempts = 2,
                      ir_error = Some (''[CurseForgeError] Failed writing stream to temp file ''
                                       @ ''/r/mods/a.jar.part: Provide exactly one of `data` or `chunks`.''),
                      ir_checksum_ok = None\<rparr>],
          backups = [[''r-backups'', ''r-20240101T000000Z'']], success = False\<rparr>,
    (quiet_world
       [([''r''], Dir), ([''r'', ''old''], File [1]), ([''r'', ''mods''], Dir),
        ([''r'', ''resourcepacks''], Dir), ([''r'', ''shaderpacks''], Dir), ([''r'', ''config''], Dir),
        ([''r'', ''overrides''], Dir), ([''r'', ''saves''], Dir), ([''r'', ''logs''], Dir),
        ([''r-backups''], Dir)] [])
      \<lparr>gets := [''http://h/a.jar'', ''http://h/a.jar''], lookups := 1,
       slept := [Backoff (3 / 5)]\<rparr>)"
  by (simp add: plan_defs run_defs task_defs task_loop.simps two_entry_manifest_def fs_defs os_defs)

theorem report_invariant_witness:
  "map_sum id (\<lambda>rep. (success rep, failed rep, successful rep, total_files rep))
     (fst (install_from_manifest sample_env (new_installer url_client 4 2 (3 / 5) True)
             two_entry_manifest [''r''] True True False True
             (quiet_world [([''r''], Dir), ([''r'', ''old''], File [1])]
                [answer 200 ''OK'' None [[7, 8]], answer 200 ''OK'' None [[7, 8]]])))
   = Inr (False, 1, 0, 1)"
  using report_invariant [OF failing_run [of sample_env]]
  by (simp add: failing_run)

end
